theory Spec2Isabelle
  imports Complex_Main
begin

section \<open>Python values and exceptions\<close>

text \<open>
  The program (\<^verbatim>\<open>earthquake.py\<close>) works on the objects that Python's JSON decoder
  produces. A float is a finite value, an infinity or NaN (the decoder accepts
  \<^verbatim>\<open>Infinity\<close> and \<^verbatim>\<open>NaN\<close>); finite doubles are rationals, and every operation the
  program applies to them (comparison with an integer, negation, multiplication by 1.0)
  is exact on doubles. A dict lists its items in insertion order; its keys are strings.
\<close>

datatype pyfloat = Fin rat | PInf | NInf | NaN

datatype pyval =
    PNone
  | PBool bool
  | PInt int
  | PFloat pyfloat
  | PStr string
  | PList "pyval list"
  | PDict "(string \<times> pyval) list"

text \<open>The exception classes the program can meet, each the class a handler tests for.\<close>

datatype pyexc =
    AttributeError
  | TypeError
  | IndexError
  | KeyError
  | OverflowError
  | ValueError
  | OSError
  | FileNotFoundError
  | JSONDecodeError
  | RecursionError
  | RequestException

text \<open>Sequencing of steps that may raise: the first exception ends the computation.\<close>

definition bind_exc :: "pyexc + 'a \<Rightarrow> ('a \<Rightarrow> pyexc + 'b) \<Rightarrow> pyexc + 'b" where
  "bind_exc m f = (case m of Inl e \<Rightarrow> Inl e | Inr v \<Rightarrow> f v)"

fun map_exc :: "('a \<Rightarrow> pyexc + 'b) \<Rightarrow> 'a list \<Rightarrow> pyexc + 'b list" where
  "map_exc f [] = Inr []"
| "map_exc f (x # xs) =
     (case f x of Inl e \<Rightarrow> Inl e
      | Inr y \<Rightarrow> (case map_exc f xs of Inl e \<Rightarrow> Inl e | Inr ys \<Rightarrow> Inr (y # ys)))"

text \<open>Truth value of an object, as \<^verbatim>\<open>if x\<close> and \<^verbatim>\<open>and\<close> test it.\<close>

fun truthy :: "pyval \<Rightarrow> bool" where
  "truthy PNone = False"
| "truthy (PBool b) = b"
| "truthy (PInt n) = (n \<noteq> 0)"
| "truthy (PFloat f) = (f \<noteq> Fin 0)"
| "truthy (PStr s) = (s \<noteq> [])"
| "truthy (PList xs) = (xs \<noteq> [])"
| "truthy (PDict d) = (d \<noteq> [])"

text \<open>\<^verbatim>\<open>x.get(k)\<close> and \<^verbatim>\<open>x.get(k, default)\<close>: only a dict has the method.\<close>

fun py_get_default :: "pyval \<Rightarrow> string \<Rightarrow> pyval \<Rightarrow> pyexc + pyval" where
  "py_get_default (PDict d) k dflt = Inr (case map_of d k of None \<Rightarrow> dflt | Some v \<Rightarrow> v)"
| "py_get_default _ k dflt = Inl AttributeError"

definition py_get :: "pyval \<Rightarrow> string \<Rightarrow> pyexc + pyval" where
  "py_get x k = py_get_default x k PNone"

text \<open>\<^verbatim>\<open>x[i]\<close> for a literal index \<open>i \<ge> 0\<close>. The keys of a decoded dict are strings,
  so an integer key is never found.\<close>

fun py_index :: "pyval \<Rightarrow> nat \<Rightarrow> pyexc + pyval" where
  "py_index (PList xs) i = (if i < length xs then Inr (xs ! i) else Inl IndexError)"
| "py_index (PStr s) i = (if i < length s then Inr (PStr [s ! i]) else Inl IndexError)"
| "py_index (PDict d) i = Inl KeyError"
| "py_index _ i = Inl TypeError"

text \<open>The items a \<^verbatim>\<open>for\<close> loop, \<^verbatim>\<open>extend\<close> or a comprehension draws from an object.\<close>

fun py_iter :: "pyval \<Rightarrow> pyexc + pyval list" where
  "py_iter (PList xs) = Inr xs"
| "py_iter (PStr s) = Inr (map (\<lambda>c. PStr [c]) s)"
| "py_iter (PDict d) = Inr (map (\<lambda>kv. PStr (fst kv)) d)"
| "py_iter _ = Inl TypeError"

fun py_len :: "pyval \<Rightarrow> pyexc + nat" where
  "py_len (PList xs) = Inr (length xs)"
| "py_len (PStr s) = Inr (length s)"
| "py_len (PDict d) = Inr (length d)"
| "py_len _ = Inl TypeError"

text \<open>\<^verbatim>\<open>k in x\<close> for a dict \<open>x\<close>.\<close>

definition has_key :: "(string \<times> pyval) list \<Rightarrow> string \<Rightarrow> bool" where
  "has_key d k = (map_of d k \<noteq> None)"

section \<open>Geometry extraction\<close>

text \<open>\<^verbatim>\<open>extract_coords\<close> (lines 143-162). The MultiPolygon loop appends the first ring
  of each polygon to \<^verbatim>\<open>coords\<close>.\<close>

fun first_rings :: "pyval list \<Rightarrow> pyval list \<Rightarrow> pyexc + pyval list" where
  "first_rings [] coords = Inr coords"
| "first_rings (poly # polys) coords =
     (case py_index poly 0 of Inl e \<Rightarrow> Inl e
      | Inr ring \<Rightarrow> first_rings polys (coords @ [ring]))"

definition extract_coords :: "pyval \<Rightarrow> pyexc + pyval list" where
  "extract_coords geometry =
     bind_exc (py_get geometry ''type'') (\<lambda>geom_type.
     bind_exc (py_get geometry ''coordinates'') (\<lambda>geom_coords.
       if geom_type = PStr ''Point'' then Inr []
       else if geom_type = PStr ''LineString'' then Inr [geom_coords]
       else if geom_type = PStr ''MultiLineString'' then py_iter geom_coords
       else if geom_type = PStr ''Polygon'' then
         bind_exc (py_index geom_coords 0) (\<lambda>ring. Inr [ring])
       else if geom_type = PStr ''MultiPolygon'' then
         bind_exc (py_iter geom_coords) (\<lambda>polys. first_rings polys [])
       else Inr []))"

text \<open>The FeatureCollection loop of \<^verbatim>\<open>extract_geojson_lines\<close> (lines 166-169),
  extending \<^verbatim>\<open>all_lines\<close> feature by feature.\<close>

fun extract_features :: "pyval list \<Rightarrow> pyval list \<Rightarrow> pyexc + pyval list" where
  "extract_features [] all_lines = Inr all_lines"
| "extract_features (feature # features) all_lines =
     (case py_get feature ''geometry'' of Inl e \<Rightarrow> Inl e
      | Inr geometry \<Rightarrow>
          if truthy geometry then
            (case extract_coords geometry of Inl e \<Rightarrow> Inl e
             | Inr coords \<Rightarrow> extract_features features (all_lines @ coords))
          else extract_features features all_lines)"

text \<open>\<^verbatim>\<open>extract_geojson_lines\<close> (lines 136-179).\<close>

definition extract_geojson_lines :: "pyval \<Rightarrow> pyexc + pyval list" where
  "extract_geojson_lines geojson_data =
     bind_exc (py_get geojson_data ''type'') (\<lambda>doc_type.
       if doc_type = PStr ''FeatureCollection'' then
         bind_exc (py_get_default geojson_data ''features'' (PList [])) (\<lambda>fs.
         bind_exc (py_iter fs) (\<lambda>features. extract_features features []))
       else if doc_type = PStr ''Feature'' then
         bind_exc (py_get geojson_data ''geometry'') (\<lambda>geometry.
           if truthy geometry then
             bind_exc (extract_coords geometry) (\<lambda>coords. Inr ([] @ coords))
           else Inr [])
       else
         (case geojson_data of
            PDict d \<Rightarrow>
              if has_key d ''coordinates'' \<and> has_key d ''type'' then
                bind_exc (extract_coords geojson_data) (\<lambda>coords. Inr ([] @ coords))
              else Inr []
          | _ \<Rightarrow> Inl AttributeError))"

section \<open>Numbers\<close>

text \<open>\<^verbatim>\<open>isinstance(val, (int, float))\<close>: \<^verbatim>\<open>bool\<close> is a subclass of \<^verbatim>\<open>int\<close>.\<close>

fun is_number :: "pyval \<Rightarrow> bool" where
  "is_number (PBool b) = True"
| "is_number (PInt n) = True"
| "is_number (PFloat f) = True"
| "is_number _ = False"

text \<open>\<^verbatim>\<open>x >= k\<close> for an integer constant \<open>k\<close>. Python compares an int with a float
  exactly; every comparison with NaN is false; other objects do not order with an int.\<close>

fun float_ge_int :: "pyfloat \<Rightarrow> int \<Rightarrow> bool" where
  "float_ge_int (Fin x) k = (of_int k \<le> x)"
| "float_ge_int PInf k = True"
| "float_ge_int NInf k = False"
| "float_ge_int NaN k = False"

fun py_ge_int :: "pyval \<Rightarrow> int \<Rightarrow> pyexc + bool" where
  "py_ge_int (PBool b) k = Inr (k \<le> (if b then 1 else 0))"
| "py_ge_int (PInt n) k = Inr (k \<le> n)"
| "py_ge_int (PFloat f) k = Inr (float_ge_int f k)"
| "py_ge_int _ k = Inl TypeError"

text \<open>\<^verbatim>\<open>x > k\<close> on a float, as \<^verbatim>\<open>max\<close> uses it.\<close>

fun float_gt_int :: "pyfloat \<Rightarrow> int \<Rightarrow> bool" where
  "float_gt_int (Fin x) k = (of_int k < x)"
| "float_gt_int PInf k = True"
| "float_gt_int NInf k = False"
| "float_gt_int NaN k = False"

text \<open>Unary minus.\<close>

fun float_neg :: "pyfloat \<Rightarrow> pyfloat" where
  "float_neg (Fin x) = Fin (- x)"
| "float_neg PInf = NInf"
| "float_neg NInf = PInf"
| "float_neg NaN = NaN"

fun py_neg :: "pyval \<Rightarrow> pyexc + pyval" where
  "py_neg (PBool b) = Inr (PInt (- (if b then 1 else 0)))"
| "py_neg (PInt n) = Inr (PInt (- n))"
| "py_neg (PFloat f) = Inr (PFloat (float_neg f))"
| "py_neg _ = Inl TypeError"

text \<open>Conversion of an int to a double, as \<^verbatim>\<open>int * float\<close> performs it: the nearest
  double, ties to the even significand (53 bits), OverflowError beyond the doubles.\<close>

fun bit_length :: "nat \<Rightarrow> nat" where
  "bit_length n = (if n = 0 then 0 else Suc (bit_length (n div 2)))"

declare bit_length.simps [simp del]

definition float_of_int :: "int \<Rightarrow> pyexc + pyfloat" where
  "float_of_int n =
     (let a = nat \<bar>n\<bar>;
          e = bit_length a - 53;
          q = a div 2 ^ e;
          r = a mod 2 ^ e;
          q' = (if 2 ^ e < 2 * r \<or> (2 * r = 2 ^ e \<and> odd q) then q + 1 else q);
          v = q' * 2 ^ e
      in if 2 ^ 1024 \<le> v then Inl OverflowError
         else Inr (Fin (of_int (sgn n * int v))))"

text \<open>\<^verbatim>\<open>x * m\<close> for a positive float constant \<open>m\<close>. The product of a double with 1.0,
  the configured multiplier, is that double.\<close>

fun float_mul :: "pyfloat \<Rightarrow> rat \<Rightarrow> pyfloat" where
  "float_mul (Fin x) m = Fin (x * m)"
| "float_mul PInf m = PInf"
| "float_mul NInf m = NInf"
| "float_mul NaN m = NaN"

fun py_mul_float :: "pyval \<Rightarrow> rat \<Rightarrow> pyexc + pyfloat" where
  "py_mul_float (PBool b) m = Inr (float_mul (Fin (if b then 1 else 0)) m)"
| "py_mul_float (PInt n) m =
     (case float_of_int n of Inl e \<Rightarrow> Inl e | Inr f \<Rightarrow> Inr (float_mul f m))"
| "py_mul_float (PFloat f) m = Inr (float_mul f m)"
| "py_mul_float _ m = Inl TypeError"

text \<open>\<^verbatim>\<open>max(k, p)\<close> for an int \<open>k\<close> and a float \<open>p\<close>: the builtin keeps its first
  argument unless the second is greater.\<close>

definition py_max_int_float :: "int \<Rightarrow> pyfloat \<Rightarrow> pyval" where
  "py_max_int_float k p = (if float_gt_int p k then PFloat p else PInt k)"

text \<open>The numeric value of a finite number.\<close>

fun num_value :: "pyval \<Rightarrow> rat option" where
  "num_value (PBool b) = Some (if b then 1 else 0)"
| "num_value (PInt n) = Some (of_int n)"
| "num_value (PFloat (Fin x)) = Some x"
| "num_value _ = None"

section \<open>Configuration\<close>

definition DAYS_AGO :: int where "DAYS_AGO = 1000"
definition MIN_MAGNITUDE :: rat where "MIN_MAGNITUDE = 5 / 2"
definition MIN_LAT :: rat where "MIN_LAT = 20"
definition MAX_LAT :: rat where "MAX_LAT = 50"
definition MIN_LON :: rat where "MIN_LON = 120"
definition MAX_LON :: rat where "MAX_LON = 150"
definition MIN_DEPTH_KM :: int where "MIN_DEPTH_KM = 30"
definition EARTHQUAKE_MARKER_SIZE_BASE :: int where "EARTHQUAKE_MARKER_SIZE_BASE = 3"
definition MARKER_MAGNITUDE_MULTIPLIER :: rat where "MARKER_MAGNITUDE_MULTIPLIER = 1"
definition CITY_MARKER_SIZE :: int where "CITY_MARKER_SIZE = 3"
definition GEOJSON_FILE :: string where "GEOJSON_FILE = ''gadm41_JPN_0.json''"

section \<open>Query window\<close>

text \<open>A naive \<^verbatim>\<open>datetime\<close>: the proleptic Gregorian ordinal of its day (1 is
  0001-01-01, 3652059 is 9999-12-31) and the microsecond within the day.\<close>

record pydatetime =
  ordinal :: int
  micros :: int

definition MAXORDINAL :: int where "MAXORDINAL = 3652059"

definition US_PER_DAY :: int where "US_PER_DAY = 86400000000"

definition valid_datetime :: "pydatetime \<Rightarrow> bool" where
  "valid_datetime t =
     (1 \<le> ordinal t \<and> ordinal t \<le> MAXORDINAL \<and> 0 \<le> micros t \<and> micros t < US_PER_DAY)"

definition to_micros :: "pydatetime \<Rightarrow> int" where
  "to_micros t = ordinal t * US_PER_DAY + micros t"

text \<open>\<^verbatim>\<open>timedelta(days=d)\<close> for an int \<open>d\<close>: at most 999999999 days either way.\<close>

definition timedelta_days :: "int \<Rightarrow> pyexc + int" where
  "timedelta_days d = (if \<bar>d\<bar> \<le> 999999999 then Inr d else Inl OverflowError)"

text \<open>\<^verbatim>\<open>t - delta\<close> for a delta of whole days: the day must stay in range.\<close>

definition datetime_sub_days :: "pydatetime \<Rightarrow> int \<Rightarrow> pyexc + pydatetime" where
  "datetime_sub_days t d =
     (if 0 < ordinal t - d \<and> ordinal t - d \<le> MAXORDINAL
      then Inr (t\<lparr>ordinal := ordinal t - d\<rparr>) else Inl OverflowError)"

text \<open>Lines 76-78: the pair \<open>(start_time, end_time)\<close>, \<open>now\<close> being what
  \<^verbatim>\<open>datetime.now()\<close> returns.\<close>

definition query_window :: "pydatetime \<Rightarrow> int \<Rightarrow> pyexc + pydatetime \<times> pydatetime" where
  "query_window now days_ago =
     (let end_time = now in
      bind_exc (timedelta_days days_ago) (\<lambda>delta.
      bind_exc (datetime_sub_days end_time delta) (\<lambda>start_time.
        Inr (start_time, end_time))))"

text \<open>\<^verbatim>\<open>strftime("%Y-%m-%dT%H:%M:%S")\<close> shows the day and the whole second within it.\<close>

definition strftime_seconds :: "pydatetime \<Rightarrow> int \<times> int" where
  "strftime_seconds t = (ordinal t, micros t div 1000000)"

section \<open>Catalog client\<close>

text \<open>The request parameters (lines 82-93).\<close>

record query =
  q_format :: string
  q_starttime :: "int \<times> int"
  q_endtime :: "int \<times> int"
  q_minmagnitude :: rat
  q_minlatitude :: rat
  q_maxlatitude :: rat
  q_minlongitude :: rat
  q_maxlongitude :: rat
  q_limit :: nat
  q_orderby :: string

text \<open>What the HTTP library does with the request: \<^verbatim>\<open>requests.get\<close> raises, or
  \<^verbatim>\<open>raise_for_status\<close> raises, or \<^verbatim>\<open>response.json()\<close> raises, or the body decodes.\<close>

datatype http_outcome =
    GetRaises pyexc
  | StatusRaises pyexc
  | JsonRaises pyexc
  | JsonBody pyval

text \<open>The display time of an event: a formatted string, or the literal the program
  shows for an absent time (a two-character Japanese word for "unknown").\<close>

datatype time_text = TimeUnknown | TimeText string

record seismic_event =
  latitude :: pyval
  longitude :: pyval
  depth :: pyval
  magnitude :: pyval
  time :: time_text
  place :: pyval

text \<open>The operator's console: one constructor for each \<^verbatim>\<open>print\<close> of the program.\<close>

datatype message =
    MsgFetching int rat
  | MsgApiError pyexc
  | MsgNothingToVisualize
  | MsgEventCount nat
  | MsgLinesExtracted nat
  | MsgLinesAdded
  | MsgGeoFileNotFound
  | MsgGeoFileMalformed
  | MsgGeoError pyexc
  | MsgSaved string
  | MsgReceived nat
  | MsgNoData

text \<open>Line 121. \<open>fromtimestamp\<close> stands for the library's
  \<^verbatim>\<open>datetime.fromtimestamp(time_ms / 1000).strftime(...)\<close> on a number, which
  depends on the local time zone and raises on a time out of range; dividing
  any other object by 1000 is a TypeError.\<close>

definition event_time_of :: "(pyval \<Rightarrow> pyexc + string) \<Rightarrow> pyval \<Rightarrow> pyexc + time_text" where
  "event_time_of fromtimestamp time_ms =
     (if truthy time_ms then
        (if is_number time_ms then
           bind_exc (fromtimestamp time_ms) (\<lambda>s. Inr (TimeText s))
         else Inl TypeError)
      else Inr TimeUnknown)"

text \<open>The body of the loop (lines 107-129) on one feature: \<open>None\<close> when the record
  is skipped, the new event when it is appended.\<close>

definition parse_feature ::
  "(pyval \<Rightarrow> pyexc + string) \<Rightarrow> pyval \<Rightarrow> pyexc + seismic_event option" where
  "parse_feature fromtimestamp feature =
     bind_exc (py_get feature ''properties'') (\<lambda>properties.
     bind_exc (py_get feature ''geometry'') (\<lambda>geometry.
       if \<not> truthy properties then Inr None
       else if \<not> truthy geometry then Inr None
       else
         bind_exc (py_get geometry ''coordinates'') (\<lambda>coordinates.
           if \<not> truthy coordinates then Inr None
           else
             bind_exc (py_index coordinates 0) (\<lambda>lon.
             bind_exc (py_index coordinates 1) (\<lambda>lat.
             bind_exc (py_index coordinates 2) (\<lambda>dep.
             bind_exc (py_get properties ''mag'') (\<lambda>mag.
             bind_exc (py_get properties ''time'') (\<lambda>time_ms.
             bind_exc (py_get properties ''place'') (\<lambda>plc.
             bind_exc (event_time_of fromtimestamp time_ms) (\<lambda>event_time.
               if is_number lat \<and> is_number lon \<and> is_number dep
                  \<and> dep \<noteq> PNone \<and> mag \<noteq> PNone then
                 bind_exc (py_ge_int dep MIN_DEPTH_KM) (\<lambda>deep.
                   if deep then
                     Inr (Some \<lparr>latitude = lat, longitude = lon, depth = dep,
                                magnitude = mag, time = event_time, place = plc\<rparr>)
                   else Inr None)
               else Inr None))))))))))"

fun parse_features ::
  "(pyval \<Rightarrow> pyexc + string) \<Rightarrow> pyval list \<Rightarrow> seismic_event list
     \<Rightarrow> pyexc + seismic_event list" where
  "parse_features fromtimestamp [] earthquake_list = Inr earthquake_list"
| "parse_features fromtimestamp (feature # features) earthquake_list =
     (case parse_feature fromtimestamp feature of
        Inl e \<Rightarrow> Inl e
      | Inr None \<Rightarrow> parse_features fromtimestamp features earthquake_list
      | Inr (Some ev) \<Rightarrow> parse_features fromtimestamp features (earthquake_list @ [ev]))"

text \<open>Lines 102-130 on the decoded body.\<close>

definition parse_response ::
  "(pyval \<Rightarrow> pyexc + string) \<Rightarrow> pyval \<Rightarrow> pyexc + seismic_event list" where
  "parse_response fromtimestamp data =
     bind_exc (py_get_default data ''features'' (PList [])) (\<lambda>fs.
     bind_exc (py_iter fs) (\<lambda>features. parse_features fromtimestamp features []))"

text \<open>The \<^verbatim>\<open>try\<close> block (lines 97-130).\<close>

definition try_fetch ::
  "(pyval \<Rightarrow> pyexc + string) \<Rightarrow> http_outcome \<Rightarrow> pyexc + seismic_event list" where
  "try_fetch fromtimestamp h =
     (case h of
        GetRaises e \<Rightarrow> Inl e
      | StatusRaises e \<Rightarrow> Inl e
      | JsonRaises e \<Rightarrow> Inl e
      | JsonBody data \<Rightarrow> parse_response fromtimestamp data)"

text \<open>\<^verbatim>\<open>get_usgs_earthquake_data\<close> (lines 60-134): what it returns or raises, and
  what it has printed by then. \<open>http\<close> is the network, \<open>now\<close> the clock.\<close>

definition get_usgs_earthquake_data ::
  "(query \<Rightarrow> http_outcome) \<Rightarrow> (pyval \<Rightarrow> pyexc + string) \<Rightarrow> pydatetime
     \<Rightarrow> int \<Rightarrow> rat \<Rightarrow> rat \<Rightarrow> rat \<Rightarrow> rat \<Rightarrow> rat
     \<Rightarrow> (pyexc + seismic_event list) \<times> message list" where
  "get_usgs_earthquake_data http fromtimestamp now days_ago min_magnitude
       min_lat max_lat min_lon max_lon =
     (case query_window now days_ago of
        Inl e \<Rightarrow> (Inl e, [])
      | Inr (start_time, end_time) \<Rightarrow>
          let params = \<lparr>q_format = ''geojson'',
                        q_starttime = strftime_seconds start_time,
                        q_endtime = strftime_seconds end_time,
                        q_minmagnitude = min_magnitude,
                        q_minlatitude = min_lat, q_maxlatitude = max_lat,
                        q_minlongitude = min_lon, q_maxlongitude = max_lon,
                        q_limit = 20000, q_orderby = ''time''\<rparr>;
              printed = [MsgFetching days_ago min_magnitude]
          in (case try_fetch fromtimestamp (http params) of
                Inr earthquake_list \<Rightarrow> (Inr earthquake_list, printed)
              | Inl e \<Rightarrow>
                  if e = RequestException then (Inr [], printed @ [MsgApiError e])
                  else (Inl e, printed)))"

section \<open>Scene composer\<close>

text \<open>The city table (lines 41-57): latitude, longitude and label. The labels of the
  source are Japanese place names, written here in Latin letters.\<close>

definition MAJOR_JAPANESE_CITIES :: "(rat \<times> rat \<times> string) list" where
  "MAJOR_JAPANESE_CITIES =
     [(356895 / 10000, 1396917 / 10000, ''Tokyo''),
      (346937 / 10000, 1355022 / 10000, ''Osaka''),
      (351815 / 10000, 1369066 / 10000, ''Nagoya''),
      (430621 / 10000, 1413544 / 10000, ''Sapporo''),
      (335903 / 10000, 1304017 / 10000, ''Fukuoka''),
      (382682 / 10000, 1408694 / 10000, ''Sendai''),
      (343963 / 10000, 1324596 / 10000, ''Hiroshima''),
      (346851 / 10000, 1339187 / 10000, ''Okayama''),
      (38, 140, ''Fukushima''),
      (379023 / 10000, 1390232 / 10000, ''Niigata''),
      (350116 / 10000, 1357681 / 10000, ''Kyoto''),
      (347042 / 10000, 137382 / 1000, ''Hamamatsu''),
      (327875 / 10000, 1298738 / 10000, ''Nagasaki''),
      (315969 / 10000, 1305571 / 10000, ''Kagoshima''),
      (262124 / 10000, 1276809 / 10000, ''Naha'')]"

text \<open>The traces handed to the charting library (\<^verbatim>\<open>go.Scatter3d\<close>), with the
  arguments that vary: \<open>x\<close>, \<open>y\<close>, \<open>z\<close>, then the marker sizes, the colours and the
  hover details of the events, the labels of the cities, the index in the name of a
  map line.\<close>

datatype trace =
    Earthquakes "pyval list" "pyval list" "pyval list" "pyval list" "pyval list"
      "seismic_event list"
  | MajorCities "rat list" "rat list" "int list" "string list"
  | MapLine nat "pyval list" "pyval list" "int list"

datatype figure = Figure "trace list"

text \<open>The calls whose result the program does not decide, each raising or
  succeeding: the conversion of a value to text inside an f-string (Python refuses an
  int of more digits than its limit), and the calls into the charting library:
  \<^verbatim>\<open>go.Scatter3d\<close> on the arguments of a trace, \<^verbatim>\<open>go.Figure\<close> on the traces,
  \<^verbatim>\<open>update_layout\<close>, \<^verbatim>\<open>show\<close> and \<^verbatim>\<open>write_html\<close> on the figure.\<close>

record runtime =
  format_value :: "pyval \<Rightarrow> pyexc option"
  scatter3d :: "trace \<Rightarrow> pyexc option"
  new_figure :: "trace list \<Rightarrow> pyexc option"
  update_layout :: "figure \<Rightarrow> pyexc option"
  show_figure :: "figure \<Rightarrow> pyexc option"
  write_html :: "figure \<Rightarrow> string \<Rightarrow> pyexc option"

text \<open>What a run has done for the operator: what it raised, what it printed, the
  figures it showed and the files it wrote.\<close>

record outcome =
  raised :: "pyexc option"
  printed :: "message list"
  shown :: "figure list"
  written :: "(string \<times> figure) list"

text \<open>The first exception of a sequence of steps.\<close>

fun first_exc :: "pyexc option list \<Rightarrow> pyexc option" where
  "first_exc [] = None"
| "first_exc (None # steps) = first_exc steps"
| "first_exc (Some e # steps) = Some e"

text \<open>Line 212, for one magnitude.\<close>

definition marker_size :: "pyval \<Rightarrow> pyexc + pyval" where
  "marker_size mag =
     bind_exc (py_mul_float mag MARKER_MAGNITUDE_MULTIPLIER) (\<lambda>p.
       Inr (py_max_int_float EARTHQUAKE_MARKER_SIZE_BASE p))"

text \<open>The hover text of one event (lines 202-209): the time is a string already; the
  place, the latitude, the longitude, the depth and the magnitude are converted in
  this order.\<close>

definition format_detail :: "runtime \<Rightarrow> seismic_event \<Rightarrow> pyexc option" where
  "format_detail rt eq =
     first_exc [format_value rt (place eq), format_value rt (latitude eq),
                format_value rt (longitude eq), format_value rt (depth eq),
                format_value rt (magnitude eq)]"

text \<open>The loop over the events (lines 195-210): for each event the negated depth, then
  the hover text. The other lists take the fields as they are.\<close>

fun event_loop :: "runtime \<Rightarrow> seismic_event list \<Rightarrow> pyval list \<Rightarrow> pyexc + pyval list" where
  "event_loop rt [] depths_for_plot = Inr depths_for_plot"
| "event_loop rt (eq # rest) depths_for_plot =
     (case py_neg (depth eq) of
        Inl e \<Rightarrow> Inl e
      | Inr z \<Rightarrow>
          (case format_detail rt eq of
             Some e \<Rightarrow> Inl e
           | None \<Rightarrow> event_loop rt rest (depths_for_plot @ [z])))"

text \<open>Lines 193-231: the loop, the marker sizes, the first trace.\<close>

definition earthquakes_trace :: "runtime \<Rightarrow> seismic_event list \<Rightarrow> pyexc + trace" where
  "earthquakes_trace rt earthquakes_data =
     (let latitudes = map latitude earthquakes_data;
          longitudes = map longitude earthquakes_data;
          depths_original = map depth earthquakes_data;
          magnitudes = map magnitude earthquakes_data;
          event_details = earthquakes_data
      in bind_exc (event_loop rt earthquakes_data []) (\<lambda>depths_for_plot.
         bind_exc (map_exc marker_size magnitudes) (\<lambda>marker_sizes.
           (case scatter3d rt (Earthquakes longitudes latitudes depths_for_plot marker_sizes
                                 depths_original event_details) of
              Some e \<Rightarrow> Inl e
            | None \<Rightarrow>
                Inr (Earthquakes longitudes latitudes depths_for_plot marker_sizes
                       depths_original event_details)))))"

text \<open>Lines 234-257: the arguments of the second trace.\<close>

definition cities_trace :: trace where
  "cities_trace =
     MajorCities (map (\<lambda>city. fst (snd city)) MAJOR_JAPANESE_CITIES)
       (map fst MAJOR_JAPANESE_CITIES)
       (replicate (length MAJOR_JAPANESE_CITIES) 0)
       (map (\<lambda>city. snd (snd city)) MAJOR_JAPANESE_CITIES)"

text \<open>Lines 271-283: the trace of one extracted line.\<close>

definition line_trace :: "runtime \<Rightarrow> nat \<Rightarrow> pyval \<Rightarrow> pyexc + trace" where
  "line_trace rt i line_coords =
     bind_exc (py_iter line_coords) (\<lambda>coords0.
     bind_exc (map_exc (\<lambda>coord. py_index coord 0) coords0) (\<lambda>line_lons.
     bind_exc (py_iter line_coords) (\<lambda>coords1.
     bind_exc (map_exc (\<lambda>coord. py_index coord 1) coords1) (\<lambda>line_lats.
     bind_exc (py_len line_coords) (\<lambda>n.
       (case scatter3d rt (MapLine i line_lons line_lats (replicate n 0)) of
          Some e \<Rightarrow> Inl e
        | None \<Rightarrow> Inr (MapLine i line_lons line_lats (replicate n 0))))))))"

text \<open>The loop of lines 269-283: it stops at the first exception, and the traces
  appended so far stay in \<^verbatim>\<open>data_to_plot\<close>.\<close>

fun add_lines ::
  "runtime \<Rightarrow> nat \<Rightarrow> pyval list \<Rightarrow> trace list \<Rightarrow> pyexc option \<times> trace list" where
  "add_lines rt i [] data_to_plot = (None, data_to_plot)"
| "add_lines rt i (line_coords # map_lines) data_to_plot =
     (case line_trace rt i line_coords of
        Inl e \<Rightarrow> (Some e, data_to_plot)
      | Inr t \<Rightarrow> add_lines rt (Suc i) map_lines (data_to_plot @ [t]))"

text \<open>What reading the boundary file does: \<^verbatim>\<open>open\<close> raises, or \<^verbatim>\<open>json.load\<close>
  raises, or the document is loaded.\<close>

datatype boundary_file =
    OpenRaises pyexc
  | LoadRaises pyexc
  | Loaded pyval

text \<open>The three handlers of lines 286-291, in their order.\<close>

definition boundary_handler :: "pyexc \<Rightarrow> message" where
  "boundary_handler e =
     (if e = FileNotFoundError then MsgGeoFileNotFound
      else if e = JSONDecodeError then MsgGeoFileMalformed
      else MsgGeoError e)"

text \<open>Lines 260-291: the traces and the console after the block.\<close>

definition plot_boundary ::
  "runtime \<Rightarrow> boundary_file \<Rightarrow> trace list \<Rightarrow> message list
     \<Rightarrow> trace list \<times> message list" where
  "plot_boundary rt file data_to_plot out =
     (case file of
        OpenRaises e \<Rightarrow> (data_to_plot, out @ [boundary_handler e])
      | LoadRaises e \<Rightarrow> (data_to_plot, out @ [boundary_handler e])
      | Loaded geojson_data \<Rightarrow>
          (case extract_geojson_lines geojson_data of
             Inl e \<Rightarrow> (data_to_plot, out @ [boundary_handler e])
           | Inr map_lines \<Rightarrow>
               (case add_lines rt 0 map_lines data_to_plot of
                  (Some e, data_to_plot') \<Rightarrow>
                    (data_to_plot',
                     out @ [MsgLinesExtracted (length map_lines), boundary_handler e])
                | (None, data_to_plot') \<Rightarrow>
                    (data_to_plot',
                     out @ [MsgLinesExtracted (length map_lines), MsgLinesAdded]))))"

text \<open>Lines 295-313, outside the \<^verbatim>\<open>try\<close> block: the figure is built, laid out, shown
  and written; an exception of any of the four calls ends the function.\<close>

definition render_figure :: "runtime \<Rightarrow> trace list \<Rightarrow> message list \<Rightarrow> outcome" where
  "render_figure rt data_to_plot out =
     (case new_figure rt data_to_plot of
        Some e \<Rightarrow> \<lparr>raised = Some e, printed = out, shown = [], written = []\<rparr>
      | None \<Rightarrow>
          (case update_layout rt (Figure data_to_plot) of
             Some e \<Rightarrow> \<lparr>raised = Some e, printed = out, shown = [], written = []\<rparr>
           | None \<Rightarrow>
               (case show_figure rt (Figure data_to_plot) of
                  Some e \<Rightarrow> \<lparr>raised = Some e, printed = out, shown = [], written = []\<rparr>
                | None \<Rightarrow>
                    (case write_html rt (Figure data_to_plot) ''earthquake_map.html'' of
                       Some e \<Rightarrow>
                         \<lparr>raised = Some e, printed = out,
                          shown = [Figure data_to_plot], written = []\<rparr>
                     | None \<Rightarrow>
                         \<lparr>raised = None,
                          printed = out @ [MsgSaved ''earthquake_map.html''],
                          shown = [Figure data_to_plot],
                          written = [(''earthquake_map.html'', Figure data_to_plot)]\<rparr>))))"

text \<open>\<^verbatim>\<open>visualize_earthquakes_pure_3d\<close> (lines 181-313).\<close>

definition visualize_earthquakes_pure_3d ::
  "runtime \<Rightarrow> boundary_file \<Rightarrow> seismic_event list \<Rightarrow> outcome" where
  "visualize_earthquakes_pure_3d rt file earthquakes_data =
     (if earthquakes_data = [] then
        \<lparr>raised = None, printed = [MsgNothingToVisualize], shown = [], written = []\<rparr>
      else
        (case earthquakes_trace rt earthquakes_data of
           Inl e \<Rightarrow>
             \<lparr>raised = Some e, printed = [MsgEventCount (length earthquakes_data)],
              shown = [], written = []\<rparr>
         | Inr quakes \<Rightarrow>
             (case scatter3d rt cities_trace of
                Some e \<Rightarrow>
                  \<lparr>raised = Some e, printed = [MsgEventCount (length earthquakes_data)],
                   shown = [], written = []\<rparr>
              | None \<Rightarrow>
                  (case plot_boundary rt file [quakes, cities_trace]
                          [MsgEventCount (length earthquakes_data)] of
                     (data_to_plot, out) \<Rightarrow> render_figure rt data_to_plot out))))"

text \<open>The script (lines 315-324).\<close>

definition main ::
  "runtime \<Rightarrow> (query \<Rightarrow> http_outcome) \<Rightarrow> (pyval \<Rightarrow> pyexc + string) \<Rightarrow> pydatetime
     \<Rightarrow> boundary_file \<Rightarrow> outcome" where
  "main rt http fromtimestamp now file =
     (case get_usgs_earthquake_data http fromtimestamp now DAYS_AGO MIN_MAGNITUDE
             MIN_LAT MAX_LAT MIN_LON MAX_LON of
        (Inl e, out) \<Rightarrow> \<lparr>raised = Some e, printed = out, shown = [], written = []\<rparr>
      | (Inr usgs_earthquake_data, out) \<Rightarrow>
          if usgs_earthquake_data \<noteq> [] then
            (let v = visualize_earthquakes_pure_3d rt file usgs_earthquake_data
             in v\<lparr>printed := out @ [MsgReceived (length usgs_earthquake_data)] @ printed v\<rparr>)
          else
            \<lparr>raised = None, printed = out @ [MsgNoData], shown = [], written = []\<rparr>)"

section \<open>Vocabulary of the properties\<close>

text \<open>The depth and the magnitude a catalog record carries, read the way the parse
  step reads them (lines 115-116), and the records of a response (line 106).\<close>

definition feature_depth :: "pyval \<Rightarrow> pyexc + pyval" where
  "feature_depth feature =
     bind_exc (py_get feature ''geometry'') (\<lambda>geometry.
     bind_exc (py_get geometry ''coordinates'') (\<lambda>coordinates.
       py_index coordinates 2))"

definition feature_magnitude :: "pyval \<Rightarrow> pyexc + pyval" where
  "feature_magnitude feature =
     bind_exc (py_get feature ''properties'') (\<lambda>properties. py_get properties ''mag'')"

definition response_features :: "pyval \<Rightarrow> pyexc + pyval list" where
  "response_features data =
     bind_exc (py_get_default data ''features'' (PList [])) py_iter"

text \<open>The shape of a boundary document as GeoJSON has it: the document is an object;
  the features of a FeatureCollection are objects in an array; the geometry of a feature
  is null or a geometry object; the coordinates of a MultiLineString or a Polygon are
  an array, those of a MultiPolygon an array of arrays.\<close>

fun is_list :: "pyval \<Rightarrow> bool" where
  "is_list (PList xs) = True"
| "is_list _ = False"

definition geometry_shaped :: "pyval \<Rightarrow> bool" where
  "geometry_shaped g =
     (case g of
        PDict d \<Rightarrow>
          if map_of d ''type'' = Some (PStr ''MultiLineString'')
             \<or> map_of d ''type'' = Some (PStr ''Polygon'')
          then (case map_of d ''coordinates'' of Some (PList xs) \<Rightarrow> True | _ \<Rightarrow> False)
          else if map_of d ''type'' = Some (PStr ''MultiPolygon'')
          then (case map_of d ''coordinates'' of
                  Some (PList polys) \<Rightarrow> list_all is_list polys | _ \<Rightarrow> False)
          else True
      | _ \<Rightarrow> False)"

definition feature_shaped :: "pyval \<Rightarrow> bool" where
  "feature_shaped f =
     (case f of
        PDict d \<Rightarrow>
          (case map_of d ''geometry'' of
             None \<Rightarrow> True
           | Some g \<Rightarrow> if g = PNone then True else geometry_shaped g)
      | _ \<Rightarrow> False)"

definition document_shaped :: "pyval \<Rightarrow> bool" where
  "document_shaped doc =
     (case doc of
        PDict d \<Rightarrow>
          if map_of d ''type'' = Some (PStr ''FeatureCollection'') then
            (case map_of d ''features'' of
               None \<Rightarrow> True
             | Some (PList fs) \<Rightarrow> list_all feature_shaped fs
             | _ \<Rightarrow> False)
          else if map_of d ''type'' = Some (PStr ''Feature'') then feature_shaped doc
          else geometry_shaped doc
      | _ \<Rightarrow> False)"

text \<open>Ring presence: a Polygon has at least one ring, and so has every polygon of a
  MultiPolygon; for a feature and for a document, all their geometries have.\<close>

definition rings_present :: "pyval \<Rightarrow> bool" where
  "rings_present g =
     (case g of
        PDict d \<Rightarrow>
          if map_of d ''type'' = Some (PStr ''Polygon'')
          then map_of d ''coordinates'' \<noteq> Some (PList [])
          else if map_of d ''type'' = Some (PStr ''MultiPolygon'')
          then (case map_of d ''coordinates'' of
                  Some (PList polys) \<Rightarrow> list_all (\<lambda>poly. poly \<noteq> PList []) polys
                | _ \<Rightarrow> True)
          else True
      | _ \<Rightarrow> True)"

definition feature_rings_present :: "pyval \<Rightarrow> bool" where
  "feature_rings_present f =
     (case f of
        PDict d \<Rightarrow> (case map_of d ''geometry'' of None \<Rightarrow> True | Some g \<Rightarrow> rings_present g)
      | _ \<Rightarrow> True)"

definition document_rings_present :: "pyval \<Rightarrow> bool" where
  "document_rings_present doc =
     (case doc of
        PDict d \<Rightarrow>
          if map_of d ''type'' = Some (PStr ''FeatureCollection'') then
            (case map_of d ''features'' of
               Some (PList fs) \<Rightarrow> list_all feature_rings_present fs
             | _ \<Rightarrow> True)
          else if map_of d ''type'' = Some (PStr ''Feature'') then feature_rings_present doc
          else rings_present doc
      | _ \<Rightarrow> True)"

text \<open>The lines one feature of a collection contributes (lines 167-169).\<close>

definition feature_lines :: "pyval \<Rightarrow> pyval list" where
  "feature_lines feature =
     (case py_get feature ''geometry'' of
        Inl e \<Rightarrow> []
      | Inr geometry \<Rightarrow>
          if truthy geometry then
            (case extract_coords geometry of Inl e \<Rightarrow> [] | Inr coords \<Rightarrow> coords)
          else [])"

subsection \<open>Sample inputs\<close>

definition pt :: "rat \<Rightarrow> rat \<Rightarrow> pyval" where
  "pt lon lat = PList [PFloat (Fin lon), PFloat (Fin lat)]"

definition ring_a :: pyval where
  "ring_a = PList [pt 139 35, pt 140 35, pt 140 36, pt 139 35]"

definition hole_a :: pyval where
  "hole_a = PList [pt (1393 / 10) (351 / 10), pt (1394 / 10) (351 / 10),
                   pt (1394 / 10) (352 / 10), pt (1393 / 10) (351 / 10)]"

definition ring_b :: pyval where
  "ring_b = PList [pt 130 33, pt 131 33, pt 131 34, pt 130 33]"

definition line_c :: pyval where
  "line_c = PList [pt 141 43, pt 142 44]"

definition bad_line :: pyval where
  "bad_line = PList [PList [PFloat (Fin 141)]]"

definition geometry_of :: "string \<Rightarrow> pyval \<Rightarrow> (string \<times> pyval) list" where
  "geometry_of t coordinates = [(''type'', PStr t), (''coordinates'', coordinates)]"

definition feature_of :: "pyval \<Rightarrow> pyval" where
  "feature_of geometry =
     PDict [(''type'', PStr ''Feature''), (''properties'', PDict []),
            (''geometry'', geometry)]"

definition sample_boundary_items :: "(string \<times> pyval) list" where
  "sample_boundary_items =
     [(''type'', PStr ''FeatureCollection''),
      (''features'', PList
         ([feature_of (PDict (geometry_of ''Polygon'' (PList [ring_a, hole_a])))]
          @ [feature_of (PDict (geometry_of ''MultiLineString'' (PList [line_c, ring_b])))]))]"

text \<open>A run in which no conversion to text and no call of the charting library
  raises.\<close>

definition sample_runtime :: runtime where
  "sample_runtime =
     \<lparr>format_value = (\<lambda>v. None), scatter3d = (\<lambda>t. None), new_figure = (\<lambda>ts. None),
      update_layout = (\<lambda>f. None), show_figure = (\<lambda>f. None),
      write_html = (\<lambda>f name. None)\<rparr>"

definition sample_clock :: pydatetime where
  "sample_clock = \<lparr>ordinal = 739000, micros = 45296789012\<rparr>"

definition sample_fromtimestamp :: "pyval \<Rightarrow> pyexc + string" where
  "sample_fromtimestamp t = Inr ''2024/01/01 09:00:00''"

definition sample_feature :: "pyval list \<Rightarrow> pyval \<Rightarrow> pyval" where
  "sample_feature coordinates mag =
     PDict [(''type'', PStr ''Feature''),
            (''properties'', PDict [(''mag'', mag), (''time'', PNone),
                                    (''place'', PStr ''near Honshu'')]),
            (''geometry'', PDict [(''type'', PStr ''Point''),
                                  (''coordinates'', PList coordinates)])]"

definition sample_event :: "pyval \<Rightarrow> pyval \<Rightarrow> pyval \<Rightarrow> pyval \<Rightarrow> seismic_event" where
  "sample_event lon lat dep mag =
     \<lparr>latitude = lat, longitude = lon, depth = dep, magnitude = mag,
      time = TimeUnknown, place = PStr ''near Honshu''\<rparr>"

definition sample_response :: "pyval list \<Rightarrow> query \<Rightarrow> http_outcome" where
  "sample_response features q =
     JsonBody (PDict [(''type'', PStr ''FeatureCollection''), (''features'', PList features)])"

section \<open>Properties\<close>

lemma bind_exc_simps:
  "bind_exc (Inl e) f = Inl e"
  "bind_exc (Inr v) f = f v"
  by (simp_all add: bind_exc_def)

lemma bind_exc_Inr:
  "bind_exc m f = Inr r \<longleftrightarrow> (\<exists>v. m = Inr v \<and> f v = Inr r)"
  by (cases m) (simp_all add: bind_exc_def)

lemmas window_defs = query_window_def timedelta_days_def datetime_sub_days_def
  MAXORDINAL_def US_PER_DAY_def valid_datetime_def to_micros_def strftime_seconds_def

lemmas catalog_defs = get_usgs_earthquake_data_def try_fetch_def parse_response_def
  parse_feature_def event_time_of_def py_get_def Let_def

lemmas config_defs = DAYS_AGO_def MIN_MAGNITUDE_def MIN_LAT_def MAX_LAT_def MIN_LON_def
  MAX_LON_def MIN_DEPTH_KM_def EARTHQUAKE_MARKER_SIZE_BASE_def
  MARKER_MAGNITUDE_MULTIPLIER_def

lemmas sample_defs = sample_clock_def sample_fromtimestamp_def sample_feature_def
  sample_event_def sample_response_def

lemmas boundary_defs = extract_geojson_lines_def extract_coords_def py_get_def has_key_def
  geometry_of_def feature_of_def sample_boundary_items_def

subsection \<open>Catalog client\<close>

lemma py_ge_int_True:
  "py_ge_int v k = Inr True \<Longrightarrow>
     (case v of PBool b \<Rightarrow> k \<le> (if b then 1 else 0) | PInt n \<Rightarrow> k \<le> n
      | PFloat (Fin x) \<Rightarrow> of_int k \<le> x | PFloat PInf \<Rightarrow> True | _ \<Rightarrow> False)"
  by (cases v) (auto split: pyfloat.splits elim: float_ge_int.elims)

lemma parse_feature_Some:
  assumes "parse_feature ft feature = Inr (Some ev)"
  shows "feature_depth feature = Inr (depth ev) \<and> feature_magnitude feature = Inr (magnitude ev)
    \<and> depth ev \<noteq> PNone \<and> magnitude ev \<noteq> PNone \<and> is_number (depth ev)
    \<and> is_number (latitude ev) \<and> is_number (longitude ev)
    \<and> py_ge_int (depth ev) MIN_DEPTH_KM = Inr True"
  using assms
  unfolding parse_feature_def feature_depth_def feature_magnitude_def
  by (auto simp: bind_exc_Inr split: if_splits)

lemma parse_features_sound:
  "parse_features ft fs acc = Inr evs \<Longrightarrow> ev \<in> set evs \<Longrightarrow>
     ev \<in> set acc \<or> (\<exists>feature \<in> set fs. parse_feature ft feature = Inr (Some ev))"
proof (induction fs arbitrary: acc)
  case Nil
  then show ?case by simp
next
  case (Cons f fs)
  show ?case
  proof (cases "parse_feature ft f")
    case (Inl e)
    with Cons.prems show ?thesis by simp
  next
    case (Inr r)
    show ?thesis
    proof (cases r)
      case None
      with Inr Cons.prems have "parse_features ft fs acc = Inr evs" by simp
      from Cons.IH[OF this Cons.prems(2)] show ?thesis by auto
    next
      case (Some a)
      with Inr Cons.prems have "parse_features ft fs (acc @ [a]) = Inr evs" by simp
      from Cons.IH[OF this Cons.prems(2)] Inr Some show ?thesis by auto
    qed
  qed
qed

lemma get_usgs_Inr:
  assumes "fst (get_usgs_earthquake_data http ft now days_ago mm a b c d) = Inr evs"
    and "ev \<in> set evs"
  shows "\<exists>q data features. http q = JsonBody data \<and> response_features data = Inr features
     \<and> parse_features ft features [] = Inr evs"
  using assms
  unfolding get_usgs_earthquake_data_def try_fetch_def parse_response_def response_features_def
  by (auto simp: Let_def bind_exc_Inr split: sum.splits prod.splits http_outcome.splits if_splits)

text \<open>
  Claim C1. Whatever the network answers, every event in the list that
  \<^verbatim>\<open>get_usgs_earthquake_data\<close> returns comes from a record of the response whose depth
  (third coordinate) and magnitude are present, that is not \<^verbatim>\<open>None\<close>, and its depth is
  a number at least \<open>MIN_DEPTH_KM\<close>: an int or a finite float of that value or more, or
  the float infinity.
\<close>

theorem C1_accepted_events_present_and_deep:
  assumes "fst (get_usgs_earthquake_data http ft now days_ago min_magnitude
                  min_lat max_lat min_lon max_lon) = Inr evs"
    and "ev \<in> set evs"
  shows "depth ev \<noteq> PNone \<and> magnitude ev \<noteq> PNone \<and> is_number (depth ev)
    \<and> py_ge_int (depth ev) MIN_DEPTH_KM = Inr True
    \<and> (case depth ev of PInt n \<Rightarrow> MIN_DEPTH_KM \<le> n
        | PFloat (Fin x) \<Rightarrow> of_int MIN_DEPTH_KM \<le> x | PFloat PInf \<Rightarrow> True | _ \<Rightarrow> False)
    \<and> (\<exists>q data features feature. http q = JsonBody data
          \<and> response_features data = Inr features \<and> feature \<in> set features
          \<and> feature_depth feature = Inr (depth ev)
          \<and> feature_magnitude feature = Inr (magnitude ev))"
proof -
  from get_usgs_Inr[OF assms] obtain q data features where
    h: "http q = JsonBody data" "response_features data = Inr features"
       "parse_features ft features [] = Inr evs" by blast
  from parse_features_sound[OF h(3) assms(2)] obtain feature where
    f: "feature \<in> set features" "parse_feature ft feature = Inr (Some ev)" by auto
  note p = parse_feature_Some[OF f(2)]
  from p have ge: "py_ge_int (depth ev) MIN_DEPTH_KM = Inr True" by simp
  have "case depth ev of PInt n \<Rightarrow> MIN_DEPTH_KM \<le> n
        | PFloat (Fin x) \<Rightarrow> of_int MIN_DEPTH_KM \<le> x | PFloat PInf \<Rightarrow> True | _ \<Rightarrow> False"
    using py_ge_int_True[OF ge]
    by (auto simp: MIN_DEPTH_KM_def split: pyval.splits pyfloat.splits if_splits)
  with p h f show ?thesis by blast
qed

text \<open>The scenario of the specification: three records, one of depth 10, leave two
  events, both at depth 30 or more.\<close>

lemma sample_three_features:
  "fst (get_usgs_earthquake_data
     (sample_response
        [sample_feature [PFloat (Fin 140), PFloat (Fin 35), PFloat (Fin 45)] (PFloat (Fin 5)),
         sample_feature [PFloat (Fin 141), PFloat (Fin 36), PInt 10] (PFloat (Fin 6)),
         sample_feature [PFloat (Fin 142), PFloat (Fin 37), PInt 30] (PFloat (Fin 3))])
     sample_fromtimestamp sample_clock DAYS_AGO MIN_MAGNITUDE MIN_LAT MAX_LAT MIN_LON MAX_LON)
   = Inr [sample_event (PFloat (Fin 140)) (PFloat (Fin 35)) (PFloat (Fin 45)) (PFloat (Fin 5)),
          sample_event (PFloat (Fin 142)) (PFloat (Fin 37)) (PInt 30) (PFloat (Fin 3))]"
  by (simp add: catalog_defs window_defs config_defs sample_defs bind_exc_simps)

theorem C1_witness:
  "depth (sample_event (PFloat (Fin 142)) (PFloat (Fin 37)) (PInt 30) (PFloat (Fin 3))) \<noteq> PNone
   \<and> py_ge_int (depth (sample_event (PFloat (Fin 142)) (PFloat (Fin 37)) (PInt 30)
        (PFloat (Fin 3)))) MIN_DEPTH_KM = Inr True"
  using C1_accepted_events_present_and_deep[OF sample_three_features,
      of "sample_event (PFloat (Fin 142)) (PFloat (Fin 37)) (PInt 30) (PFloat (Fin 3))"]
  by simp

text \<open>
  Claim C2. The claim says that a record with a missing depth is skipped and that the
  parse step raises for no shape of feature. A record whose coordinates hold a longitude
  and a latitude only (a two-dimensional GeoJSON point) makes line 115 raise IndexError,
  which the handler of line 131 does not catch: the function raises instead of skipping.
\<close>

theorem C2_two_coordinates_raise_IndexError:
  "get_usgs_earthquake_data
     (sample_response [sample_feature [PFloat (Fin 140), PFloat (Fin 35)] (PFloat (Fin 5))])
     sample_fromtimestamp sample_clock DAYS_AGO MIN_MAGNITUDE MIN_LAT MAX_LAT MIN_LON MAX_LON
   = (Inl IndexError, [MsgFetching 1000 (5 / 2)])"
  by (simp add: catalog_defs window_defs config_defs sample_defs bind_exc_simps)


lemma sample_window:
  "query_window sample_clock DAYS_AGO
     = Inr (\<lparr>ordinal = 738000, micros = 45296789012\<rparr>, sample_clock)"
  by (simp add: window_defs config_defs sample_defs bind_exc_simps)


text \<open>
  Claim C8. The window that \<^verbatim>\<open>get_usgs_earthquake_data\<close> computes ends at the time of
  the run and starts exactly \<open>days_ago\<close> days earlier: the two instants differ by
  \<open>days_ago\<close> times 86400000000 microseconds, the two request parameters show the same
  time of day on days \<open>days_ago\<close> apart, and for a positive \<open>days_ago\<close> the start
  precedes the end. The window exists whenever the start stays within the calendar.
\<close>

theorem C8_query_window_exact:
  "(query_window now days_ago = Inr (start_time, end_time) \<longrightarrow>
       end_time = now
     \<and> to_micros end_time - to_micros start_time = days_ago * US_PER_DAY
     \<and> fst (strftime_seconds end_time) - fst (strftime_seconds start_time) = days_ago
     \<and> snd (strftime_seconds start_time) = snd (strftime_seconds end_time)
     \<and> (0 < days_ago \<longrightarrow> to_micros start_time < to_micros end_time))
   \<and> (valid_datetime now \<and> 0 \<le> days_ago \<and> days_ago < ordinal now \<longrightarrow>
        (\<exists>s. query_window now days_ago = Inr (s, now) \<and> valid_datetime s))"
  by (auto simp: window_defs bind_exc_Inr bind_exc_simps Let_def algebra_simps
      split: if_splits)

theorem C8_witness:
  "query_window sample_clock DAYS_AGO
     = Inr (\<lparr>ordinal = 738000, micros = 45296789012\<rparr>, sample_clock)
   \<and> to_micros sample_clock - to_micros \<lparr>ordinal = 738000, micros = 45296789012\<rparr>
       = DAYS_AGO * US_PER_DAY
   \<and> valid_datetime sample_clock \<and> 0 \<le> DAYS_AGO \<and> DAYS_AGO < ordinal sample_clock
   \<and> (\<exists>s. query_window sample_clock DAYS_AGO = Inr (s, sample_clock) \<and> valid_datetime s)"
  using C8_query_window_exact[of sample_clock DAYS_AGO
      "\<lparr>ordinal = 738000, micros = 45296789012\<rparr>" sample_clock] sample_window
  by (simp add: valid_datetime_def sample_clock_def DAYS_AGO_def MAXORDINAL_def
      US_PER_DAY_def)

subsection \<open>Geometry extractor\<close>

lemma first_rings_nonempty:
  "\<forall>p \<in> set polys. p \<noteq> [] \<Longrightarrow>
     first_rings (map PList polys) coords = Inr (coords @ map hd polys)"
proof (induction polys arbitrary: coords)
  case Nil
  then show ?case by simp
next
  case (Cons p ps)
  then obtain r rs where p: "p = r # rs" by (cases p) auto
  from Cons show ?case by (simp add: p)
qed

text \<open>
  Claim C3. \<^verbatim>\<open>extract_coords\<close> dispatches on the type of the geometry object \<open>g\<close>: a
  Point gives no sequence; a LineString gives its coordinates as the one sequence; a
  MultiLineString gives its component sequences; a Polygon with rings
  \<open>ring # rings\<close> gives the one sequence \<open>ring\<close>; a MultiPolygon of \<open>K\<close> polygons,
  each with a first ring, gives these \<open>K\<close> first rings; a type that is absent or is
  none of the five gives no sequence, and no error.
\<close>

theorem C3_extract_coords_dispatch:
  fixes g :: "(string \<times> pyval) list"
  shows "(map_of g ''type'' = Some (PStr ''Point'') \<longrightarrow> extract_coords (PDict g) = Inr [])
    \<and> (map_of g ''type'' = Some (PStr ''LineString'') \<longrightarrow> map_of g ''coordinates'' = Some c
          \<longrightarrow> extract_coords (PDict g) = Inr [c])
    \<and> (map_of g ''type'' = Some (PStr ''MultiLineString'')
          \<longrightarrow> map_of g ''coordinates'' = Some (PList ls)
          \<longrightarrow> extract_coords (PDict g) = Inr ls)
    \<and> (map_of g ''type'' = Some (PStr ''Polygon'')
          \<longrightarrow> map_of g ''coordinates'' = Some (PList (ring # rings))
          \<longrightarrow> extract_coords (PDict g) = Inr [ring])
    \<and> (map_of g ''type'' = Some (PStr ''MultiPolygon'')
          \<longrightarrow> map_of g ''coordinates'' = Some (PList (map PList polys))
          \<longrightarrow> (\<forall>p \<in> set polys. p \<noteq> [])
          \<longrightarrow> extract_coords (PDict g) = Inr (map hd polys)
              \<and> length (map hd polys) = length polys)
    \<and> ((\<forall>t. map_of g ''type'' = Some (PStr t) \<longrightarrow>
            t \<notin> {''Point'', ''LineString'', ''MultiLineString'', ''Polygon'', ''MultiPolygon''})
          \<longrightarrow> extract_coords (PDict g) = Inr [])"
  by (auto simp: extract_coords_def py_get_def bind_exc_simps first_rings_nonempty
      split: option.splits)

theorem C3_witness:
  "extract_coords (PDict (geometry_of ''Point'' (pt 139 35))) = Inr []
   \<and> extract_coords (PDict (geometry_of ''LineString'' line_c)) = Inr [line_c]
   \<and> extract_coords (PDict (geometry_of ''MultiLineString'' (PList [line_c, ring_b])))
       = Inr [line_c, ring_b]
   \<and> extract_coords (PDict (geometry_of ''Polygon'' (PList [ring_a, hole_a]))) = Inr [ring_a]
   \<and> extract_coords (PDict (geometry_of ''MultiPolygon''
         (PList [PList [ring_a, hole_a], PList [ring_b]]))) = Inr [ring_a, ring_b]
   \<and> extract_coords (PDict (geometry_of ''GeometryCollection'' PNone)) = Inr []
   \<and> extract_coords (PDict [(''coordinates'', line_c)]) = Inr []"
  using
    C3_extract_coords_dispatch[where g = "geometry_of ''Point'' (pt 139 35)"]
    C3_extract_coords_dispatch[where g = "geometry_of ''LineString'' line_c" and c = line_c]
    C3_extract_coords_dispatch[where g = "geometry_of ''MultiLineString'' (PList [line_c, ring_b])"
      and ls = "[line_c, ring_b]"]
    C3_extract_coords_dispatch[where g = "geometry_of ''Polygon'' (PList [ring_a, hole_a])"
      and ring = ring_a and rings = "[hole_a]"]
    C3_extract_coords_dispatch[where g = "geometry_of ''MultiPolygon''
         (PList [PList [ring_a, hole_a], PList [ring_b]])"
      and polys = "[[ring_a, hole_a], [ring_b]]"]
    C3_extract_coords_dispatch[where g = "geometry_of ''GeometryCollection'' PNone"]
    C3_extract_coords_dispatch[where g = "[(''coordinates'', line_c)]"]
  by (simp add: geometry_of_def)

lemma extract_features_acc:
  "extract_features fs acc = Inr ls \<longleftrightarrow>
     (\<exists>r. extract_features fs [] = Inr r \<and> ls = acc @ r)"
proof (induction fs arbitrary: acc ls)
  case Nil
  then show ?case by auto
next
  case (Cons f fs)
  show ?case
  proof (cases "py_get f ''geometry''")
    case (Inl e)
    then show ?thesis by simp
  next
    case (Inr g)
    show ?thesis
    proof (cases "truthy g")
      case False
      with Inr Cons.IH[of acc ls] show ?thesis by simp
    next
      case True
      show ?thesis
      proof (cases "extract_coords g")
        case (Inl e)
        with Inr True show ?thesis by simp
      next
        case cs: (Inr cs)
        have "extract_features (f # fs) acc = extract_features fs (acc @ cs)"
          "extract_features (f # fs) [] = extract_features fs cs"
          using Inr True cs by simp_all
        then show ?thesis
          using Cons.IH[of "acc @ cs" ls] Cons.IH[of cs] by auto
      qed
    qed
  qed
qed

lemma extract_features_concat:
  "extract_features fs acc = Inr ls \<Longrightarrow> ls = acc @ concat (map feature_lines fs)"
proof (induction fs arbitrary: acc)
  case Nil
  then show ?case by simp
next
  case (Cons f fs)
  show ?case
  proof (cases "py_get f ''geometry''")
    case (Inl e)
    with Cons.prems show ?thesis by simp
  next
    case (Inr g)
    show ?thesis
    proof (cases "truthy g")
      case False
      with Inr Cons.prems have "extract_features fs acc = Inr ls" by simp
      from Cons.IH[OF this] Inr False show ?thesis by (simp add: feature_lines_def)
    next
      case True
      show ?thesis
      proof (cases "extract_coords g")
        case (Inl e)
        with Inr True Cons.prems show ?thesis by simp
      next
        case cs: (Inr cs)
        with Inr True Cons.prems have "extract_features fs (acc @ cs) = Inr ls" by simp
        from Cons.IH[OF this] Inr True cs show ?thesis by (simp add: feature_lines_def)
      qed
    qed
  qed
qed

lemma extract_features_append:
  "extract_features (fs @ gs) acc = Inr ls \<Longrightarrow>
     \<exists>as. extract_features fs acc = Inr as \<and> extract_features gs as = Inr ls"
proof (induction fs arbitrary: acc)
  case Nil
  then show ?case by simp
next
  case (Cons f fs)
  then show ?case by (auto split: sum.splits if_splits)
qed

text \<open>
  Claim C9. \<^verbatim>\<open>extract_geojson_lines\<close> keeps nothing between calls (its accumulators
  are created in the call) and does not change the document: calling it a second time
  on the same document returns the list the first call returned. The list follows the
  document: for a FeatureCollection it is the concatenation, feature after feature, of
  the sequences of each feature, so the lines of the features \<open>fs\<close> come before those
  of the features \<open>gs\<close> that follow them.
\<close>

theorem C9_extraction_repeatable_in_document_order:
  "(extract_geojson_lines doc = Inr ls \<longrightarrow>
      bind_exc (extract_geojson_lines doc) (\<lambda>first.
      bind_exc (extract_geojson_lines doc) (\<lambda>second. Inr (first, second))) = Inr (ls, ls))
   \<and> (map_of d ''type'' = Some (PStr ''FeatureCollection'')
        \<longrightarrow> map_of d ''features'' = Some (PList (fs @ gs))
        \<longrightarrow> extract_geojson_lines (PDict d) = Inr ls
        \<longrightarrow> ls = concat (map feature_lines (fs @ gs))
          \<and> (\<exists>as bs. extract_features fs [] = Inr as \<and> extract_features gs [] = Inr bs
                \<and> ls = as @ bs))"
proof (intro conjI impI)
  assume "extract_geojson_lines doc = Inr ls"
  then show "bind_exc (extract_geojson_lines doc) (\<lambda>first.
      bind_exc (extract_geojson_lines doc) (\<lambda>second. Inr (first, second))) = Inr (ls, ls)"
    by (simp add: bind_exc_simps)
next
  assume a: "map_of d ''type'' = Some (PStr ''FeatureCollection'')"
    "map_of d ''features'' = Some (PList (fs @ gs))"
    "extract_geojson_lines (PDict d) = Inr ls"
  then have e: "extract_features (fs @ gs) [] = Inr ls"
    by (simp add: extract_geojson_lines_def py_get_def bind_exc_simps)
  from extract_features_concat[OF e] show "ls = concat (map feature_lines (fs @ gs))" by simp
  from extract_features_append[OF e] obtain as where
    as: "extract_features fs [] = Inr as" "extract_features gs as = Inr ls" by blast
  from as(2) obtain bs where "extract_features gs [] = Inr bs" "ls = as @ bs"
    using extract_features_acc[of gs as ls] by blast
  with as(1) show "\<exists>as bs. extract_features fs [] = Inr as \<and> extract_features gs [] = Inr bs
                \<and> ls = as @ bs" by blast
qed

lemma sample_boundary_lines:
  "extract_geojson_lines (PDict sample_boundary_items) = Inr [ring_a, line_c, ring_b]"
  by (simp add: boundary_defs bind_exc_simps)

theorem C9_witness:
  "extract_geojson_lines (PDict sample_boundary_items) = Inr [ring_a, line_c, ring_b]
   \<and> bind_exc (extract_geojson_lines (PDict sample_boundary_items)) (\<lambda>first.
       bind_exc (extract_geojson_lines (PDict sample_boundary_items)) (\<lambda>second.
         Inr (first, second)))
       = Inr ([ring_a, line_c, ring_b], [ring_a, line_c, ring_b])
   \<and> [ring_a, line_c, ring_b]
       = concat (map feature_lines
           ([feature_of (PDict (geometry_of ''Polygon'' (PList [ring_a, hole_a])))]
            @ [feature_of (PDict (geometry_of ''MultiLineString'' (PList [line_c, ring_b])))]))"
proof -
  let ?fs = "[feature_of (PDict (geometry_of ''Polygon'' (PList [ring_a, hole_a])))]"
  let ?gs = "[feature_of (PDict (geometry_of ''MultiLineString'' (PList [line_c, ring_b])))]"
  note h = sample_boundary_lines
  have t: "map_of sample_boundary_items ''type'' = Some (PStr ''FeatureCollection'')"
    by (simp add: sample_boundary_items_def)
  have f: "map_of sample_boundary_items ''features'' = Some (PList (?fs @ ?gs))"
    by (simp add: sample_boundary_items_def)
  note c = C9_extraction_repeatable_in_document_order[where doc = "PDict sample_boundary_items"
      and ls = "[ring_a, line_c, ring_b]" and d = sample_boundary_items
      and fs = ?fs and gs = ?gs]
  from c[THEN conjunct1, rule_format, OF h]
    c[THEN conjunct2, rule_format, OF t f h, THEN conjunct1] h
  show ?thesis by blast
qed

lemma first_rings_total:
  "list_all is_list polys \<Longrightarrow> list_all (\<lambda>poly. poly \<noteq> PList []) polys \<Longrightarrow>
     \<exists>rs. first_rings polys coords = Inr rs"
proof (induction polys arbitrary: coords)
  case Nil
  then show ?case by simp
next
  case (Cons p ps)
  from Cons.prems obtain r rs where p: "p = PList (r # rs)"
    by (cases p; simp) (metis list.exhaust)
  from Cons show ?case by (simp add: p)
qed

lemma extract_coords_total:
  assumes "geometry_shaped g" "rings_present g"
  shows "\<exists>cs. extract_coords g = Inr cs"
proof -
  from assms(1) obtain d where d: "g = PDict d"
    by (cases g) (simp_all add: geometry_shaped_def)
  show ?thesis
    using assms first_rings_total
    unfolding d extract_coords_def geometry_shaped_def rings_present_def
    by (auto simp: py_get_def bind_exc_simps
        split: option.splits pyval.splits if_splits list.splits)
qed

lemma feature_total:
  assumes "feature_shaped f" "feature_rings_present f"
  shows "\<exists>g. py_get f ''geometry'' = Inr g \<and> (truthy g \<longrightarrow> (\<exists>cs. extract_coords g = Inr cs))"
  using assms extract_coords_total
  unfolding feature_shaped_def feature_rings_present_def py_get_def
  by (auto split: pyval.splits option.splits if_splits)

lemma extract_features_total:
  "list_all feature_shaped fs \<Longrightarrow> list_all feature_rings_present fs \<Longrightarrow>
     \<exists>ls. extract_features fs all_lines = Inr ls"
proof (induction fs arbitrary: all_lines)
  case Nil
  then show ?case by simp
next
  case (Cons f fs)
  from Cons.prems have f: "feature_shaped f" "feature_rings_present f"
    and rest: "list_all feature_shaped fs" "list_all feature_rings_present fs" by simp_all
  from feature_total[OF f] obtain g where
    g: "py_get f ''geometry'' = Inr g" "truthy g \<longrightarrow> (\<exists>cs. extract_coords g = Inr cs)" by blast
  show ?case
  proof (cases "truthy g")
    case True
    with g obtain cs where "extract_coords g = Inr cs" by blast
    with g True Cons.IH[OF rest] show ?thesis by simp
  next
    case False
    with g Cons.IH[OF rest] show ?thesis by simp
  qed
qed

text \<open>
  Claim C10. On a boundary document of the GeoJSON shape in which every Polygon, and
  every polygon of a MultiPolygon, has at least one ring, \<^verbatim>\<open>extract_geojson_lines\<close>
  returns a list. A Polygon with an empty ring list, or a MultiPolygon holding a
  polygon with none, is outside the guarantee: line 157 (line 161) takes item 0 of the
  empty list, and the call raises IndexError.
\<close>

theorem C10_total_when_rings_present:
  "(document_shaped doc \<and> document_rings_present doc
      \<longrightarrow> (\<exists>ls. extract_geojson_lines doc = Inr ls))
   \<and> extract_geojson_lines (PDict (geometry_of ''Polygon'' (PList []))) = Inl IndexError
   \<and> extract_geojson_lines (PDict (geometry_of ''MultiPolygon'' (PList [PList []])))
       = Inl IndexError
   \<and> extract_geojson_lines
        (PDict [(''type'', PStr ''FeatureCollection''),
                (''features'', PList [feature_of (PDict (geometry_of ''Polygon'' (PList [])))])])
       = Inl IndexError"
proof (intro conjI impI)
  assume "document_shaped doc \<and> document_rings_present doc"
  then have sh: "document_shaped doc" and rp: "document_rings_present doc" by simp_all
  then obtain d where d: "doc = PDict d"
    by (cases doc) (simp_all add: document_shaped_def)
  consider (fc) "map_of d ''type'' = Some (PStr ''FeatureCollection'')"
    | (ft) "map_of d ''type'' = Some (PStr ''Feature'')"
    | (geo) "map_of d ''type'' \<noteq> Some (PStr ''FeatureCollection'')"
        "map_of d ''type'' \<noteq> Some (PStr ''Feature'')" by blast
  then show "\<exists>ls. extract_geojson_lines doc = Inr ls"
  proof cases
    case fc
    with sh rp extract_features_total show ?thesis
      unfolding d document_shaped_def document_rings_present_def extract_geojson_lines_def
        py_get_def
      by (auto simp: bind_exc_simps split: option.splits pyval.splits)
  next
    case ft
    with sh rp have "feature_shaped (PDict d)" "feature_rings_present (PDict d)"
      by (simp_all add: d document_shaped_def document_rings_present_def)
    from feature_total[OF this] ft show ?thesis
      unfolding d extract_geojson_lines_def
      by (auto simp: bind_exc_simps py_get_def split: option.splits)
  next
    case geo
    with sh rp have "geometry_shaped (PDict d)" "rings_present (PDict d)"
      by (simp_all add: d document_shaped_def document_rings_present_def)
    from extract_coords_total[OF this] geo show ?thesis
      unfolding d extract_geojson_lines_def
      by (auto simp: bind_exc_simps py_get_def split: option.splits)
  qed
qed (simp_all add: boundary_defs bind_exc_simps)

theorem C10_witness:
  "document_shaped (PDict sample_boundary_items)
   \<and> document_rings_present (PDict sample_boundary_items)
   \<and> (\<exists>ls. extract_geojson_lines (PDict sample_boundary_items) = Inr ls)"
  using C10_total_when_rings_present[of "PDict sample_boundary_items"]
  by (simp add: document_shaped_def document_rings_present_def feature_shaped_def
      feature_rings_present_def geometry_shaped_def rings_present_def
      sample_boundary_items_def feature_of_def geometry_of_def)

subsection \<open>Scene composer\<close>

text \<open>
  Claim C6. With an empty event list \<^verbatim>\<open>visualize_earthquakes_pure_3d\<close> prints that
  there is nothing to visualize, shows no figure and writes no file. The script does
  not even call it: when the catalog client returns the empty list, the script prints
  that no data is available, shows nothing and writes nothing.
\<close>

theorem C6_empty_events_no_render:
  "visualize_earthquakes_pure_3d rt boundary [] =
     \<lparr>raised = None, printed = [MsgNothingToVisualize], shown = [], written = []\<rparr>
   \<and> (fst (get_usgs_earthquake_data http fromtimestamp now DAYS_AGO MIN_MAGNITUDE
             MIN_LAT MAX_LAT MIN_LON MAX_LON) = Inr []
       \<longrightarrow> raised (main rt http fromtimestamp now boundary) = None
         \<and> shown (main rt http fromtimestamp now boundary) = []
         \<and> written (main rt http fromtimestamp now boundary) = []
         \<and> MsgNoData \<in> set (printed (main rt http fromtimestamp now boundary)))"
  by (auto simp: visualize_earthquakes_pure_3d_def main_def split: prod.splits sum.splits)

lemma sample_all_shallow:
  "fst (get_usgs_earthquake_data
     (sample_response [sample_feature [PFloat (Fin 141), PFloat (Fin 36), PInt 10] (PFloat (Fin 6))])
     sample_fromtimestamp sample_clock DAYS_AGO MIN_MAGNITUDE MIN_LAT MAX_LAT MIN_LON MAX_LON)
   = Inr []"
  by (simp add: catalog_defs window_defs config_defs sample_defs bind_exc_simps)

theorem C6_witness:
  "visualize_earthquakes_pure_3d sample_runtime (Loaded (PDict sample_boundary_items)) [] =
     \<lparr>raised = None, printed = [MsgNothingToVisualize], shown = [], written = []\<rparr>
   \<and> written (main sample_runtime
        (sample_response [sample_feature [PFloat (Fin 141), PFloat (Fin 36), PInt 10]
                            (PFloat (Fin 6))])
        sample_fromtimestamp sample_clock (Loaded (PDict sample_boundary_items))) = []
   \<and> shown (main sample_runtime
        (sample_response [sample_feature [PFloat (Fin 141), PFloat (Fin 36), PInt 10]
                            (PFloat (Fin 6))])
        sample_fromtimestamp sample_clock (Loaded (PDict sample_boundary_items))) = []"
  using C6_empty_events_no_render[where rt = sample_runtime
      and http = "sample_response [sample_feature [PFloat (Fin 141), PFloat (Fin 36), PInt 10]
                            (PFloat (Fin 6))]"
      and fromtimestamp = sample_fromtimestamp and now = sample_clock
      and boundary = "Loaded (PDict sample_boundary_items)"] sample_all_shallow
  by simp

lemma bit_length_le: "a < 2 ^ k \<Longrightarrow> bit_length a \<le> k"
proof (induction k arbitrary: a)
  case 0
  then show ?case by (simp add: bit_length.simps)
next
  case (Suc k)
  show ?case
  proof (cases "a = 0")
    case True
    then show ?thesis by (simp add: bit_length.simps)
  next
    case False
    from Suc.prems have "a div 2 < 2 ^ k" by simp
    from Suc.IH[OF this] False show ?thesis by (subst bit_length.simps) simp
  qed
qed

lemma float_of_int_exact:
  assumes "\<bar>n\<bar> < 2 ^ 53"
  shows "float_of_int n = Inr (Fin (of_int n))"
proof -
  have "nat \<bar>n\<bar> < 2 ^ 53" using assms by (simp add: nat_less_iff)
  from bit_length_le[OF this] have e: "bit_length (nat \<bar>n\<bar>) - 53 = 0" by simp
  have lt: "nat \<bar>n\<bar> < 2 ^ 1024"
    using \<open>nat \<bar>n\<bar> < 2 ^ 53\<close> by (rule less_le_trans) simp
  have "sgn n * \<bar>n\<bar> = n" by (simp add: mult_sgn_abs)
  with lt show ?thesis
    by (simp add: float_of_int_def e Let_def not_le)
qed

lemma map_exc_Inr:
  "map_exc f xs = Inr ys \<Longrightarrow>
     length ys = length xs \<and> (\<forall>i < length xs. f (xs ! i) = Inr (ys ! i))"
proof (induction xs arbitrary: ys)
  case Nil
  then show ?case by simp
next
  case (Cons x xs)
  from Cons.prems obtain y ys' where
    y: "f x = Inr y" "map_exc f xs = Inr ys'" "ys = y # ys'"
    by (auto split: sum.splits)
  from Cons.IH[OF y(2)] y show ?case by (auto simp: nth_Cons')
qed

lemma map_exc_total:
  "\<forall>x \<in> set xs. \<exists>y. f x = Inr y \<Longrightarrow> \<exists>ys. map_exc f xs = Inr ys"
proof (induction xs)
  case Nil
  then show ?case by simp
next
  case (Cons x xs)
  then obtain y ys where "f x = Inr y" "map_exc f xs = Inr ys" by auto
  then show ?case by simp
qed

lemma py_neg_total: "is_number v \<Longrightarrow> \<exists>z. py_neg v = Inr z"
  by (cases v) simp_all

lemma event_loop_total:
  "\<forall>ev \<in> set evs. is_number (depth ev) \<and> format_detail rt ev = None \<Longrightarrow>
     \<exists>zs. event_loop rt evs acc = Inr zs"
proof (induction evs arbitrary: acc)
  case Nil
  then show ?case by simp
next
  case (Cons ev evs)
  from Cons.prems have n: "is_number (depth ev)" and f: "format_detail rt ev = None"
    and rest: "\<forall>ev \<in> set evs. is_number (depth ev) \<and> format_detail rt ev = None"
    by simp_all
  from py_neg_total[OF n] obtain z where "py_neg (depth ev) = Inr z" by blast
  with f Cons.IH[OF rest] show ?case by simp
qed

lemma earthquakes_trace_shape:
  assumes "earthquakes_trace rt evs = Inr t"
  shows "\<exists>zs sizes.
      t = Earthquakes (map longitude evs) (map latitude evs) zs sizes (map depth evs) evs
    \<and> length sizes = length evs
    \<and> (\<forall>i < length evs. marker_size (magnitude (evs ! i)) = Inr (sizes ! i))"
proof -
  from assms obtain zs sizes where
    z: "event_loop rt evs [] = Inr zs"
    and m: "map_exc marker_size (map magnitude evs) = Inr sizes"
    and t: "t = Earthquakes (map longitude evs) (map latitude evs) zs sizes (map depth evs) evs"
    by (auto simp: earthquakes_trace_def Let_def bind_exc_Inr split: option.splits)
  from map_exc_Inr[OF m] t show ?thesis by auto
qed

lemma earthquakes_trace_total:
  assumes "\<forall>ev \<in> set evs. is_number (depth ev) \<and> format_detail rt ev = None
             \<and> (\<exists>s. marker_size (magnitude ev) = Inr s)"
    and "\<forall>t. scatter3d rt t = None"
  shows "\<exists>t. earthquakes_trace rt evs = Inr t"
proof -
  from assms(1) event_loop_total[of evs rt "[]"] obtain zs where
    z: "event_loop rt evs [] = Inr zs" by auto
  from assms(1) have "\<forall>m \<in> set (map magnitude evs). \<exists>s. marker_size m = Inr s" by auto
  from map_exc_total[OF this] obtain sizes where
    m: "map_exc marker_size (map magnitude evs) = Inr sizes" by blast
  from z m assms(2) show ?thesis
    by (simp add: earthquakes_trace_def Let_def bind_exc_simps)
qed

lemma add_lines_keeps:
  "add_lines rt i ls acc = (r, traces) \<Longrightarrow>
     \<exists>ts. traces = acc @ ts \<and> length ts \<le> length ls
        \<and> (\<forall>j < length ts. line_trace rt (i + j) (ls ! j) = Inr (ts ! j))
        \<and> (case r of None \<Rightarrow> length ts = length ls
            | Some e \<Rightarrow> length ts < length ls
                \<and> line_trace rt (i + length ts) (ls ! length ts) = Inl e)"
proof (induction ls arbitrary: i acc)
  case Nil
  then show ?case by auto
next
  case (Cons l ls)
  show ?case
  proof (cases "line_trace rt i l")
    case (Inl e)
    with Cons.prems show ?thesis by auto
  next
    case (Inr t)
    with Cons.prems have "add_lines rt (Suc i) ls (acc @ [t]) = (r, traces)" by simp
    from Cons.IH[OF this] obtain ts where
      ts: "traces = (acc @ [t]) @ ts" "length ts \<le> length ls"
        "\<forall>j < length ts. line_trace rt (Suc i + j) (ls ! j) = Inr (ts ! j)"
        "case r of None \<Rightarrow> length ts = length ls
            | Some e \<Rightarrow> length ts < length ls
                \<and> line_trace rt (Suc i + length ts) (ls ! length ts) = Inl e" by blast
    have "\<forall>j < length (t # ts). line_trace rt (i + j) ((l # ls) ! j) = Inr ((t # ts) ! j)"
    proof (intro allI impI)
      fix j assume "j < length (t # ts)"
      then show "line_trace rt (i + j) ((l # ls) ! j) = Inr ((t # ts) ! j)"
        using ts(3) Inr by (cases j) auto
    qed
    moreover have "traces = acc @ (t # ts)" using ts(1) by simp
    moreover have "length (t # ts) \<le> length (l # ls)" using ts(2) by simp
    moreover have "case r of None \<Rightarrow> length (t # ts) = length (l # ls)
            | Some e \<Rightarrow> length (t # ts) < length (l # ls)
                \<and> line_trace rt (i + length (t # ts)) ((l # ls) ! length (t # ts)) = Inl e"
      using ts(4) by (auto split: option.splits)
    ultimately show ?thesis by blast
  qed
qed

lemma plot_boundary_prefix:
  assumes "plot_boundary rt boundary acc out = (d, out')"
  shows "\<exists>ts. d = acc @ ts"
proof (cases boundary)
  case (Loaded doc)
  show ?thesis
  proof (cases "extract_geojson_lines doc")
    case (Inl e)
    with assms Loaded show ?thesis by (simp add: plot_boundary_def)
  next
    case (Inr map_lines)
    obtain r tr where al: "add_lines rt 0 map_lines acc = (r, tr)"
      by (cases "add_lines rt 0 map_lines acc")
    from add_lines_keeps[OF al] obtain ts where "tr = acc @ ts" by blast
    moreover from assms Loaded Inr al have "d = tr"
      by (cases r) (simp_all add: plot_boundary_def)
    ultimately show ?thesis by blast
  qed
qed (use assms in \<open>simp_all add: plot_boundary_def\<close>)

lemma render_figure_done:
  "raised (render_figure rt d out) = None \<Longrightarrow>
     render_figure rt d out =
       \<lparr>raised = None, printed = out @ [MsgSaved ''earthquake_map.html''],
        shown = [Figure d], written = [(''earthquake_map.html'', Figure d)]\<rparr>"
  by (auto simp: render_figure_def split: option.splits)

lemma render_figure_accepted:
  "new_figure rt d = None \<Longrightarrow> update_layout rt (Figure d) = None \<Longrightarrow>
   show_figure rt (Figure d) = None \<Longrightarrow>
   write_html rt (Figure d) ''earthquake_map.html'' = None \<Longrightarrow>
     render_figure rt d out =
       \<lparr>raised = None, printed = out @ [MsgSaved ''earthquake_map.html''],
        shown = [Figure d], written = [(''earthquake_map.html'', Figure d)]\<rparr>"
  by (simp add: render_figure_def)

lemma render_figure_raised:
  "raised (render_figure rt d out) = Some e \<Longrightarrow>
     new_figure rt d = Some e \<or> update_layout rt (Figure d) = Some e
     \<or> show_figure rt (Figure d) = Some e
     \<or> write_html rt (Figure d) ''earthquake_map.html'' = Some e"
  by (auto simp: render_figure_def split: option.splits)

lemma visualize_done:
  assumes "evs \<noteq> []" "raised (visualize_earthquakes_pure_3d rt boundary evs) = None"
  shows "\<exists>quakes ts. earthquakes_trace rt evs = Inr quakes
    \<and> visualize_earthquakes_pure_3d rt boundary evs =
        \<lparr>raised = None,
         printed = snd (plot_boundary rt boundary [quakes, cities_trace]
                          [MsgEventCount (length evs)]) @ [MsgSaved ''earthquake_map.html''],
         shown = [Figure (quakes # cities_trace # ts)],
         written = [(''earthquake_map.html'', Figure (quakes # cities_trace # ts))]\<rparr>"
proof -
  from assms obtain quakes where q: "earthquakes_trace rt evs = Inr quakes"
    by (auto simp: visualize_earthquakes_pure_3d_def split: sum.splits)
  from assms q have c: "scatter3d rt cities_trace = None"
    by (auto simp: visualize_earthquakes_pure_3d_def split: option.splits)
  obtain d out where pb:
    "plot_boundary rt boundary [quakes, cities_trace] [MsgEventCount (length evs)] = (d, out)"
    by (cases "plot_boundary rt boundary [quakes, cities_trace] [MsgEventCount (length evs)]")
  from plot_boundary_prefix[OF pb] obtain ts where d: "d = quakes # cities_trace # ts" by auto
  have v: "visualize_earthquakes_pure_3d rt boundary evs = render_figure rt d out"
    using assms(1) q c pb by (simp add: visualize_earthquakes_pure_3d_def)
  with assms(2) have "raised (render_figure rt d out) = None" by simp
  from render_figure_done[OF this] v q pb d show ?thesis by auto
qed

text \<open>
  Claim C7. The events of a non-empty list are plotted as the first trace of the
  figure, and the size of the marker of each event is \<^verbatim>\<open>max\<close> of the base size and
  the product of the magnitude with the multiplier, as Python computes them (line 212).
  The trace exists, and the figure is shown and written, when the depths are numbers,
  the magnitudes can be multiplied and no conversion to text or charting call raises.
  For a magnitude that is a finite float, or an int below \<open>2 ^ 53\<close> in absolute value,
  the size has the value \<open>max base (magnitude * multiplier)\<close>; with base 3 and
  multiplier 1.0 a magnitude 2.0 gets the size 3 and a magnitude 6.0 the size 6.
\<close>

theorem C7_marker_size_is_max:
  "(earthquakes_trace rt evs = Inr t \<longrightarrow>
      (\<exists>zs sizes.
          t = Earthquakes (map longitude evs) (map latitude evs) zs sizes (map depth evs) evs
        \<and> length sizes = length evs
        \<and> (\<forall>i < length evs. marker_size (magnitude (evs ! i)) = Inr (sizes ! i))))
   \<and> (evs \<noteq> [] \<and> raised (visualize_earthquakes_pure_3d rt boundary evs) = None \<longrightarrow>
      (\<exists>zs sizes rest.
          shown (visualize_earthquakes_pure_3d rt boundary evs)
            = [Figure (Earthquakes (map longitude evs) (map latitude evs) zs sizes
                         (map depth evs) evs # rest)]
        \<and> written (visualize_earthquakes_pure_3d rt boundary evs)
            = [(''earthquake_map.html'',
                Figure (Earthquakes (map longitude evs) (map latitude evs) zs sizes
                          (map depth evs) evs # rest))]
        \<and> length sizes = length evs
        \<and> (\<forall>i < length evs. marker_size (magnitude (evs ! i)) = Inr (sizes ! i))))
   \<and> ((\<forall>ev \<in> set evs. is_number (depth ev) \<and> format_detail rt ev = None
            \<and> (\<exists>s. marker_size (magnitude ev) = Inr s))
        \<and> (\<forall>t. scatter3d rt t = None) \<longrightarrow>
        (\<exists>t. earthquakes_trace rt evs = Inr t)
        \<and> ((\<forall>ts. new_figure rt ts = None) \<and> (\<forall>f. update_layout rt f = None)
            \<and> (\<forall>f. show_figure rt f = None) \<and> (\<forall>f name. write_html rt f name = None) \<longrightarrow>
            raised (visualize_earthquakes_pure_3d rt boundary evs) = None))
   \<and> (marker_size mag = Inr s \<longleftrightarrow>
        (\<exists>p. py_mul_float mag MARKER_MAGNITUDE_MULTIPLIER = Inr p
           \<and> s = py_max_int_float EARTHQUAKE_MARKER_SIZE_BASE p))
   \<and> (\<exists>s. marker_size (PFloat (Fin m)) = Inr s
          \<and> num_value s = Some (max (of_int EARTHQUAKE_MARKER_SIZE_BASE)
                                   (m * MARKER_MAGNITUDE_MULTIPLIER)))
   \<and> (\<bar>n\<bar> < 2 ^ 53 \<longrightarrow>
        (\<exists>s. marker_size (PInt n) = Inr s
          \<and> num_value s = Some (max (of_int EARTHQUAKE_MARKER_SIZE_BASE)
                                   (of_int n * MARKER_MAGNITUDE_MULTIPLIER))))
   \<and> marker_size (PFloat (Fin 2)) = Inr (PInt 3)
   \<and> marker_size (PFloat (Fin 6)) = Inr (PFloat (Fin 6))"
proof -
  have 1: "\<exists>zs sizes.
          t = Earthquakes (map longitude evs) (map latitude evs) zs sizes (map depth evs) evs
        \<and> length sizes = length evs
        \<and> (\<forall>i < length evs. marker_size (magnitude (evs ! i)) = Inr (sizes ! i))"
    if "earthquakes_trace rt evs = Inr t"
    using earthquakes_trace_shape[OF that] .
  have 2: "\<exists>zs sizes rest.
          shown (visualize_earthquakes_pure_3d rt boundary evs)
            = [Figure (Earthquakes (map longitude evs) (map latitude evs) zs sizes
                         (map depth evs) evs # rest)]
        \<and> written (visualize_earthquakes_pure_3d rt boundary evs)
            = [(''earthquake_map.html'',
                Figure (Earthquakes (map longitude evs) (map latitude evs) zs sizes
                          (map depth evs) evs # rest))]
        \<and> length sizes = length evs
        \<and> (\<forall>i < length evs. marker_size (magnitude (evs ! i)) = Inr (sizes ! i))"
    if h: "evs \<noteq> [] \<and> raised (visualize_earthquakes_pure_3d rt boundary evs) = None"
  proof -
    from h visualize_done[of evs rt boundary] obtain quakes ts where
      q: "earthquakes_trace rt evs = Inr quakes"
      and v: "shown (visualize_earthquakes_pure_3d rt boundary evs)
                = [Figure (quakes # cities_trace # ts)]"
             "written (visualize_earthquakes_pure_3d rt boundary evs)
                = [(''earthquake_map.html'', Figure (quakes # cities_trace # ts))]"
      by fastforce
    from earthquakes_trace_shape[OF q] v show ?thesis by blast
  qed
  have 3: "(\<exists>t. earthquakes_trace rt evs = Inr t)
        \<and> ((\<forall>ts. new_figure rt ts = None) \<and> (\<forall>f. update_layout rt f = None)
            \<and> (\<forall>f. show_figure rt f = None) \<and> (\<forall>f name. write_html rt f name = None) \<longrightarrow>
            raised (visualize_earthquakes_pure_3d rt boundary evs) = None)"
    if h: "(\<forall>ev \<in> set evs. is_number (depth ev) \<and> format_detail rt ev = None
            \<and> (\<exists>s. marker_size (magnitude ev) = Inr s))
        \<and> (\<forall>t. scatter3d rt t = None)"
  proof -
    from h earthquakes_trace_total[of evs rt] obtain t where
      t: "earthquakes_trace rt evs = Inr t" by blast
    have "raised (visualize_earthquakes_pure_3d rt boundary evs) = None"
      if a: "(\<forall>ts. new_figure rt ts = None) \<and> (\<forall>f. update_layout rt f = None)
            \<and> (\<forall>f. show_figure rt f = None) \<and> (\<forall>f name. write_html rt f name = None)"
    proof (cases "evs = []")
      case True
      then show ?thesis by (simp add: visualize_earthquakes_pure_3d_def)
    next
      case False
      obtain d out where pb:
        "plot_boundary rt boundary [t, cities_trace] [MsgEventCount (length evs)] = (d, out)"
        by (cases "plot_boundary rt boundary [t, cities_trace] [MsgEventCount (length evs)]")
      from False t h pb have
        "visualize_earthquakes_pure_3d rt boundary evs = render_figure rt d out"
        by (simp add: visualize_earthquakes_pure_3d_def)
      with a show ?thesis by (simp add: render_figure_accepted)
    qed
    with t show ?thesis by blast
  qed
  have 4: "marker_size mag = Inr s \<longleftrightarrow>
        (\<exists>p. py_mul_float mag MARKER_MAGNITUDE_MULTIPLIER = Inr p
           \<and> s = py_max_int_float EARTHQUAKE_MARKER_SIZE_BASE p)"
    by (auto simp: marker_size_def bind_exc_Inr)
  have 5: "\<exists>s. marker_size (PFloat (Fin m)) = Inr s
          \<and> num_value s = Some (max (of_int EARTHQUAKE_MARKER_SIZE_BASE)
                                   (m * MARKER_MAGNITUDE_MULTIPLIER))"
    by (simp add: marker_size_def bind_exc_simps py_max_int_float_def config_defs max_def)
  have 6: "\<exists>s. marker_size (PInt n) = Inr s
          \<and> num_value s = Some (max (of_int EARTHQUAKE_MARKER_SIZE_BASE)
                                   (of_int n * MARKER_MAGNITUDE_MULTIPLIER))"
    if "\<bar>n\<bar> < 2 ^ 53"
    using float_of_int_exact[OF that]
    by (simp add: marker_size_def bind_exc_simps py_max_int_float_def config_defs max_def)
  have 7: "marker_size (PFloat (Fin 2)) = Inr (PInt 3)"
    "marker_size (PFloat (Fin 6)) = Inr (PFloat (Fin 6))"
    by (simp_all add: marker_size_def bind_exc_simps py_max_int_float_def config_defs)
  from 1 2 3 4 5 6 7 show ?thesis by blast
qed

lemma sample_two_events_plotted:
  "visualize_earthquakes_pure_3d sample_runtime (OpenRaises FileNotFoundError)
     [sample_event (PFloat (Fin 140)) (PFloat (Fin 35)) (PFloat (Fin 45)) (PFloat (Fin 2)),
      sample_event (PFloat (Fin 142)) (PFloat (Fin 37)) (PInt 30) (PFloat (Fin 6))]
   = \<lparr>raised = None,
      printed = [MsgEventCount 2, MsgGeoFileNotFound, MsgSaved ''earthquake_map.html''],
      shown = [Figure
        [Earthquakes [PFloat (Fin 140), PFloat (Fin 142)] [PFloat (Fin 35), PFloat (Fin 37)]
           [PFloat (Fin (- 45)), PInt (- 30)] [PInt 3, PFloat (Fin 6)]
           [PFloat (Fin 45), PInt 30]
           [sample_event (PFloat (Fin 140)) (PFloat (Fin 35)) (PFloat (Fin 45)) (PFloat (Fin 2)),
            sample_event (PFloat (Fin 142)) (PFloat (Fin 37)) (PInt 30) (PFloat (Fin 6))],
         cities_trace]],
      written = [(''earthquake_map.html'', Figure
        [Earthquakes [PFloat (Fin 140), PFloat (Fin 142)] [PFloat (Fin 35), PFloat (Fin 37)]
           [PFloat (Fin (- 45)), PInt (- 30)] [PInt 3, PFloat (Fin 6)]
           [PFloat (Fin 45), PInt 30]
           [sample_event (PFloat (Fin 140)) (PFloat (Fin 35)) (PFloat (Fin 45)) (PFloat (Fin 2)),
            sample_event (PFloat (Fin 142)) (PFloat (Fin 37)) (PInt 30) (PFloat (Fin 6))],
         cities_trace])]\<rparr>"
  by (simp add: visualize_earthquakes_pure_3d_def earthquakes_trace_def marker_size_def
      format_detail_def py_max_int_float_def config_defs sample_event_def sample_runtime_def
      plot_boundary_def render_figure_def boundary_handler_def bind_exc_simps)

theorem C7_witness:
  "shown (visualize_earthquakes_pure_3d sample_runtime (OpenRaises FileNotFoundError)
     [sample_event (PFloat (Fin 140)) (PFloat (Fin 35)) (PFloat (Fin 45)) (PFloat (Fin 2)),
      sample_event (PFloat (Fin 142)) (PFloat (Fin 37)) (PInt 30) (PFloat (Fin 6))])
   = [Figure
        [Earthquakes [PFloat (Fin 140), PFloat (Fin 142)] [PFloat (Fin 35), PFloat (Fin 37)]
           [PFloat (Fin (- 45)), PInt (- 30)] [PInt 3, PFloat (Fin 6)]
           [PFloat (Fin 45), PInt 30]
           [sample_event (PFloat (Fin 140)) (PFloat (Fin 35)) (PFloat (Fin 45)) (PFloat (Fin 2)),
            sample_event (PFloat (Fin 142)) (PFloat (Fin 37)) (PInt 30) (PFloat (Fin 6))],
         cities_trace]]
   \<and> marker_size (magnitude
       (sample_event (PFloat (Fin 140)) (PFloat (Fin 35)) (PFloat (Fin 45)) (PFloat (Fin 2))))
     = Inr (PInt 3)
   \<and> marker_size (magnitude
       (sample_event (PFloat (Fin 142)) (PFloat (Fin 37)) (PInt 30) (PFloat (Fin 6))))
     = Inr (PFloat (Fin 6))"
proof -
  let ?evs = "[sample_event (PFloat (Fin 140)) (PFloat (Fin 35)) (PFloat (Fin 45))
                 (PFloat (Fin 2)),
               sample_event (PFloat (Fin 142)) (PFloat (Fin 37)) (PInt 30) (PFloat (Fin 6))]"
  let ?v = "visualize_earthquakes_pure_3d sample_runtime (OpenRaises FileNotFoundError) ?evs"
  have r: "?evs \<noteq> [] \<and> raised ?v = None"
    by (simp add: sample_two_events_plotted)
  from C7_marker_size_is_max[where evs = ?evs and rt = sample_runtime
      and boundary = "OpenRaises FileNotFoundError", THEN conjunct2, THEN conjunct1,
      rule_format, OF r]
  obtain zs sizes rest where
    s: "shown ?v = [Figure (Earthquakes (map longitude ?evs) (map latitude ?evs) zs sizes
                         (map depth ?evs) ?evs # rest)]"
    and m: "\<forall>i < length ?evs. marker_size (magnitude (?evs ! i)) = Inr (sizes ! i)"
    by blast
  from s have "sizes = [PInt 3, PFloat (Fin 6)]"
    by (simp add: sample_two_events_plotted)
  with m[rule_format, of 0] m[rule_format, of 1] show ?thesis
    by (simp add: sample_two_events_plotted)
qed

text \<open>
  Claim C5, as the code has it. No exception of the boundary block (lines 260-285),
  whether of opening the file, of decoding it, of extracting its lines or of building
  the trace of a line, leaves the block: a handler prints it (one message for a missing
  file, one for malformed JSON, one for any other exception) and the composer goes on
  to build the figure from the traces it then holds. After a failure of opening,
  decoding or extracting these are the event and city traces only; after a failure on
  an extracted line they also hold the lines built before it. The figure is shown and
  written when the four charting calls of lines 295-312 do not raise, and an exception
  of the function can only be one of theirs.
\<close>

theorem C5_boundary_failure_is_handled:
  assumes "earthquakes_data \<noteq> []"
    and "earthquakes_trace rt earthquakes_data = Inr quakes"
    and "scatter3d rt cities_trace = None"
    and "plot_boundary rt boundary [quakes, cities_trace]
           [MsgEventCount (length earthquakes_data)] = (d, out)"
  shows "visualize_earthquakes_pure_3d rt boundary earthquakes_data = render_figure rt d out
    \<and> (\<exists>ts. d = [quakes, cities_trace] @ ts)
    \<and> (boundary = OpenRaises e \<or> boundary = LoadRaises e
         \<or> (\<exists>doc. boundary = Loaded doc \<and> extract_geojson_lines doc = Inl e) \<longrightarrow>
         d = [quakes, cities_trace]
       \<and> out = [MsgEventCount (length earthquakes_data), boundary_handler e])
    \<and> (boundary = Loaded doc \<and> extract_geojson_lines doc = Inr map_lines
         \<and> fst (add_lines rt 0 map_lines [quakes, cities_trace]) = Some e \<longrightarrow>
         (\<exists>ts. d = [quakes, cities_trace] @ ts
            \<and> length ts < length map_lines
            \<and> (\<forall>j < length ts. line_trace rt j (map_lines ! j) = Inr (ts ! j))
            \<and> line_trace rt (length ts) (map_lines ! length ts) = Inl e)
       \<and> out = [MsgEventCount (length earthquakes_data),
                MsgLinesExtracted (length map_lines), boundary_handler e])
    \<and> (new_figure rt d = None \<and> update_layout rt (Figure d) = None
         \<and> show_figure rt (Figure d) = None
         \<and> write_html rt (Figure d) ''earthquake_map.html'' = None \<longrightarrow>
         visualize_earthquakes_pure_3d rt boundary earthquakes_data =
           \<lparr>raised = None, printed = out @ [MsgSaved ''earthquake_map.html''],
            shown = [Figure d], written = [(''earthquake_map.html'', Figure d)]\<rparr>)
    \<and> (raised (visualize_earthquakes_pure_3d rt boundary earthquakes_data) = Some e \<longrightarrow>
         new_figure rt d = Some e \<or> update_layout rt (Figure d) = Some e
         \<or> show_figure rt (Figure d) = Some e
         \<or> write_html rt (Figure d) ''earthquake_map.html'' = Some e)
    \<and> boundary_handler FileNotFoundError = MsgGeoFileNotFound
    \<and> boundary_handler JSONDecodeError = MsgGeoFileMalformed
    \<and> (e \<noteq> FileNotFoundError \<and> e \<noteq> JSONDecodeError \<longrightarrow> boundary_handler e = MsgGeoError e)"
proof -
  let ?v = "visualize_earthquakes_pure_3d rt boundary earthquakes_data"
  note pb = assms(4)
  have v: "?v = render_figure rt d out"
    using assms by (simp add: visualize_earthquakes_pure_3d_def)
  have 2: "\<exists>ts. d = [quakes, cities_trace] @ ts"
    using plot_boundary_prefix[OF pb] .
  have 3: "d = [quakes, cities_trace]
       \<and> out = [MsgEventCount (length earthquakes_data), boundary_handler e]"
    if "boundary = OpenRaises e \<or> boundary = LoadRaises e
         \<or> (\<exists>doc. boundary = Loaded doc \<and> extract_geojson_lines doc = Inl e)"
    using that pb by (auto simp: plot_boundary_def)
  have 4: "(\<exists>ts. d = [quakes, cities_trace] @ ts
            \<and> length ts < length map_lines
            \<and> (\<forall>j < length ts. line_trace rt j (map_lines ! j) = Inr (ts ! j))
            \<and> line_trace rt (length ts) (map_lines ! length ts) = Inl e)
       \<and> out = [MsgEventCount (length earthquakes_data),
                MsgLinesExtracted (length map_lines), boundary_handler e]"
    if h: "boundary = Loaded doc \<and> extract_geojson_lines doc = Inr map_lines
         \<and> fst (add_lines rt 0 map_lines [quakes, cities_trace]) = Some e"
  proof -
    obtain tr where al: "add_lines rt 0 map_lines [quakes, cities_trace] = (Some e, tr)"
      using h by (cases "add_lines rt 0 map_lines [quakes, cities_trace]") auto
    from add_lines_keeps[OF al] obtain ts where
      ts: "tr = [quakes, cities_trace] @ ts" "length ts < length map_lines"
        "\<forall>j < length ts. line_trace rt j (map_lines ! j) = Inr (ts ! j)"
        "line_trace rt (length ts) (map_lines ! length ts) = Inl e"
      by auto
    from h al pb have "d = tr"
      "out = [MsgEventCount (length earthquakes_data), MsgLinesExtracted (length map_lines),
              boundary_handler e]"
      by (auto simp: plot_boundary_def)
    with ts show ?thesis by auto
  qed
  have 5: "?v = \<lparr>raised = None, printed = out @ [MsgSaved ''earthquake_map.html''],
            shown = [Figure d], written = [(''earthquake_map.html'', Figure d)]\<rparr>"
    if "new_figure rt d = None \<and> update_layout rt (Figure d) = None
         \<and> show_figure rt (Figure d) = None
         \<and> write_html rt (Figure d) ''earthquake_map.html'' = None"
    using that by (simp add: v render_figure_accepted)
  have 6: "new_figure rt d = Some e \<or> update_layout rt (Figure d) = Some e
         \<or> show_figure rt (Figure d) = Some e
         \<or> write_html rt (Figure d) ''earthquake_map.html'' = Some e"
    if "raised ?v = Some e"
    using that render_figure_raised[of rt d out e] by (simp add: v)
  have 7: "boundary_handler FileNotFoundError = MsgGeoFileNotFound"
    "boundary_handler JSONDecodeError = MsgGeoFileMalformed"
    "e \<noteq> FileNotFoundError \<and> e \<noteq> JSONDecodeError \<longrightarrow> boundary_handler e = MsgGeoError e"
    by (simp_all add: boundary_handler_def)
  from v 2 3 4 5 6 7 show ?thesis by blast
qed

lemma sample_single_trace:
  "earthquakes_trace sample_runtime
     [sample_event (PFloat (Fin 140)) (PFloat (Fin 35)) (PFloat (Fin 45)) (PFloat (Fin 6))]
   = Inr (Earthquakes [PFloat (Fin 140)] [PFloat (Fin 35)] [PFloat (Fin (- 45))]
            [PFloat (Fin 6)] [PFloat (Fin 45)]
            [sample_event (PFloat (Fin 140)) (PFloat (Fin 35)) (PFloat (Fin 45))
               (PFloat (Fin 6))])"
  by (simp add: earthquakes_trace_def marker_size_def bind_exc_simps py_max_int_float_def
      format_detail_def config_defs sample_event_def sample_runtime_def)

lemma sample_missing_file:
  "plot_boundary sample_runtime (OpenRaises FileNotFoundError)
     [Earthquakes [PFloat (Fin 140)] [PFloat (Fin 35)] [PFloat (Fin (- 45))]
        [PFloat (Fin 6)] [PFloat (Fin 45)]
        [sample_event (PFloat (Fin 140)) (PFloat (Fin 35)) (PFloat (Fin 45))
           (PFloat (Fin 6))],
      cities_trace]
     [MsgEventCount (length
        [sample_event (PFloat (Fin 140)) (PFloat (Fin 35)) (PFloat (Fin 45))
           (PFloat (Fin 6))])]
   = ([Earthquakes [PFloat (Fin 140)] [PFloat (Fin 35)] [PFloat (Fin (- 45))]
        [PFloat (Fin 6)] [PFloat (Fin 45)]
        [sample_event (PFloat (Fin 140)) (PFloat (Fin 35)) (PFloat (Fin 45))
           (PFloat (Fin 6))],
       cities_trace],
      [MsgEventCount 1, MsgGeoFileNotFound])"
  by (simp add: plot_boundary_def boundary_handler_def)

theorem C5_witness:
  "visualize_earthquakes_pure_3d sample_runtime (OpenRaises FileNotFoundError)
     [sample_event (PFloat (Fin 140)) (PFloat (Fin 35)) (PFloat (Fin 45)) (PFloat (Fin 6))]
   = \<lparr>raised = None,
      printed = [MsgEventCount 1, MsgGeoFileNotFound, MsgSaved ''earthquake_map.html''],
      shown = [Figure
         [Earthquakes [PFloat (Fin 140)] [PFloat (Fin 35)] [PFloat (Fin (- 45))]
            [PFloat (Fin 6)] [PFloat (Fin 45)]
            [sample_event (PFloat (Fin 140)) (PFloat (Fin 35)) (PFloat (Fin 45))
               (PFloat (Fin 6))],
          cities_trace]],
      written = [(''earthquake_map.html'', Figure
         [Earthquakes [PFloat (Fin 140)] [PFloat (Fin 35)] [PFloat (Fin (- 45))]
            [PFloat (Fin 6)] [PFloat (Fin 45)]
            [sample_event (PFloat (Fin 140)) (PFloat (Fin 35)) (PFloat (Fin 45))
               (PFloat (Fin 6))],
          cities_trace])]\<rparr>"
proof -
  have c: "scatter3d sample_runtime cities_trace = None"
    by (simp add: sample_runtime_def)
  note t = C5_boundary_failure_is_handled[where rt = sample_runtime
      and boundary = "OpenRaises FileNotFoundError" and e = FileNotFoundError,
      OF _ sample_single_trace c sample_missing_file]
  from t[THEN conjunct2, THEN conjunct2, THEN conjunct2, THEN conjunct2, THEN conjunct1]
  show ?thesis by (simp add: sample_runtime_def)
qed

text \<open>The claim as it is written fails for a boundary file whose second line has a
  coordinate without a latitude: the first line is already in the scene when line 272
  raises, and it is rendered.\<close>

theorem C5_partial_lines_counterexample:
  "visualize_earthquakes_pure_3d sample_runtime
     (Loaded (PDict (geometry_of ''MultiLineString'' (PList [line_c, bad_line]))))
     [sample_event (PFloat (Fin 140)) (PFloat (Fin 35)) (PFloat (Fin 45)) (PFloat (Fin 6))]
   = \<lparr>raised = None,
      printed = [MsgEventCount 1, MsgLinesExtracted 2, MsgGeoError IndexError,
                 MsgSaved ''earthquake_map.html''],
      shown = [Figure
        [Earthquakes [PFloat (Fin 140)] [PFloat (Fin 35)] [PFloat (Fin (- 45))]
           [PFloat (Fin 6)] [PFloat (Fin 45)]
           [sample_event (PFloat (Fin 140)) (PFloat (Fin 35)) (PFloat (Fin 45))
              (PFloat (Fin 6))],
         cities_trace,
         MapLine 0 [PFloat (Fin 141), PFloat (Fin 142)] [PFloat (Fin 43), PFloat (Fin 44)]
           [0, 0]]],
      written = [(''earthquake_map.html'', Figure
        [Earthquakes [PFloat (Fin 140)] [PFloat (Fin 35)] [PFloat (Fin (- 45))]
           [PFloat (Fin 6)] [PFloat (Fin 45)]
           [sample_event (PFloat (Fin 140)) (PFloat (Fin 35)) (PFloat (Fin 45))
              (PFloat (Fin 6))],
         cities_trace,
         MapLine 0 [PFloat (Fin 141), PFloat (Fin 142)] [PFloat (Fin 43), PFloat (Fin 44)]
           [0, 0]])]\<rparr>"
  by (simp add: visualize_earthquakes_pure_3d_def earthquakes_trace_def marker_size_def
      format_detail_def py_max_int_float_def config_defs sample_event_def sample_runtime_def
      plot_boundary_def render_figure_def boundary_defs bind_exc_simps line_trace_def
      line_c_def bad_line_def pt_def boundary_handler_def)

text \<open>Claim C10 as it is written fails on a document that is not of the GeoJSON
  shape: a MultiLineString whose coordinates are null holds no polygon at all, and
  line 154 raises TypeError.\<close>

theorem C10_unshaped_document_counterexample:
  "document_rings_present (PDict (geometry_of ''MultiLineString'' PNone))
   \<and> extract_geojson_lines (PDict (geometry_of ''MultiLineString'' PNone)) = Inl TypeError"
  by (simp add: document_rings_present_def rings_present_def boundary_defs bind_exc_simps)

end
